theory Spec2Isabelle
  imports Complex_Main
begin

section \<open>Errors raised by the scripts\<close>

text \<open>
  The three scripts raise Python exceptions; each one that a claim depends on is a
  constructor here, and a function that can raise returns \<open>error + 'a\<close> with the
  exception on the left.
\<close>

datatype error =
    IndexError
  | ValueError
  | KeyError
  | IOError
  | RuntimeError
  | AssertionError
  | NotImplementedError

section \<open>The contrastive-pretraining dataset (run_medclip_cl_pretrain.py)\<close>

subsection \<open>Data\<close>

text \<open>
  \<open>ImageTextContrastiveDataset._labels_\<close>: the 14 structured label columns, in the
  order of the source. 'No Finding' is the first column, so the positional slice
  \<open>iloc[:, 1:]\<close> of a frame restricted to these columns drops exactly that one.
\<close>

definition dataset_labels :: "string list" where
  "dataset_labels =
    [''No Finding'', ''Enlarged Cardiomediastinum'', ''Cardiomegaly'', ''Lung Lesion'',
     ''Lung Opacity'', ''Edema'', ''Consolidation'', ''Pneumonia'', ''Atelectasis'',
     ''Pneumothorax'', ''Pleural Effusion'', ''Pleural Other'', ''Fracture'',
     ''Support Devices'']"

text \<open>
  A label cell of the metadata frame. \<open>self.df\<close> is read with \<open>pd.read_csv\<close> and
  concatenated without any \<open>fillna\<close>, so a label cell is a number (the CheXpert
  convention is -1, 0, 1) or the missing value NaN. Arithmetic and comparisons follow
  pandas: a product with NaN is NaN, and \<open>NaN < 0\<close> and \<open>NaN == 0\<close> are both False.
\<close>

datatype cell = Val int | NaN

fun times_cell :: "int \<Rightarrow> cell \<Rightarrow> cell" where
  "times_cell a (Val b) = Val (a * b)"
| "times_cell a NaN = NaN"

fun less0 :: "cell \<Rightarrow> bool" where
  "less0 (Val v) = (v < 0)"
| "less0 NaN = False"

fun eq0 :: "cell \<Rightarrow> bool" where
  "eq0 (Val v) = (v = 0)"
| "eq0 NaN = False"

text \<open>
  A row of the metadata frame \<open>self.df\<close> (columns imgpath, report and the labels) and a
  row of the sentence frame \<open>self.sentence_label\<close> (column Reports and the labels).
  Label cells are looked up by column name. The sentence frame is read with
  \<open>.fillna(0)\<close>, so its label cells are numbers; the cells of the metadata frame are
  \<open>cell\<close>s. A report cell that \<open>pd.isna\<close> accepts is \<open>None\<close>.
\<close>

record meta_row =
  imgpath :: string
  report :: "string option"
  row_labels :: "string \<Rightarrow> cell"

record sent_row =
  Reports :: string
  sent_labels :: "string \<Rightarrow> int"

text \<open>
  The dataset object: the two frames and the image transform. A tensor is the list of
  its slices along dimension 0, so the transform of a picture with \<open>c\<close> channels is a
  list of \<open>c\<close> planes.
\<close>

record ('pil, 'plane) dataset =
  df :: "meta_row list"
  transform :: "'pil \<Rightarrow> 'plane list"
  sentence_label :: "sent_row list"

subsection \<open>Frame operations\<close>

text \<open>\<open>frame.iloc[index]\<close>: a negative position counts from the end, a position outside the
  frame raises IndexError.\<close>

definition iloc :: "'a list \<Rightarrow> int \<Rightarrow> error + 'a" where
  "iloc fr index =
     (if 0 \<le> index \<and> index < int (length fr) then Inr (fr ! nat index)
      else if index < 0 \<and> - int (length fr) \<le> index then Inr (fr ! nat (int (length fr) + index))
      else Inl IndexError)"

text \<open>\<open>frame.sample()\<close> draws one row; on a frame without rows it raises ValueError. The
  random draw is the argument \<open>r\<close>.\<close>

definition sample :: "nat \<Rightarrow> 'a list \<Rightarrow> error + 'a" where
  "sample r fr = (if length fr = 0 then Inl ValueError else Inr (fr ! (r mod length fr)))"

text \<open>\<open>frame.loc[mask]\<close> and \<open>frame[mask]\<close>: the rows whose mask entry is True, in order.\<close>

definition loc :: "'a list \<Rightarrow> bool list \<Rightarrow> 'a list" where
  "loc fr keep = map fst (filter snd (zip fr keep))"

text \<open>\<open>self.sentence_label[self._labels_] * row[self._labels_]\<close>: one row of 14 products per
  sentence, the columns matched by name.\<close>

definition mul_labels :: "sent_row list \<Rightarrow> meta_row \<Rightarrow> cell list list" where
  "mul_labels sl row =
     map (\<lambda>s. map (\<lambda>l. times_cell (sent_labels s l) (row_labels row l)) dataset_labels) sl"

text \<open>\<open>bool_sent_label[bool_sent_label < 0] = 0\<close>.\<close>

definition zero_negative :: "cell list list \<Rightarrow> cell list list" where
  "zero_negative fr = map (map (\<lambda>x. if less0 x then Val 0 else x)) fr"

text \<open>\<open>(frame == 0).all(1)\<close>, one truth value per row.\<close>

definition all_zero :: "cell list list \<Rightarrow> bool list" where
  "all_zero fr = map (list_all eq0) fr"

text \<open>\<open>frame.iloc[:, 1:]\<close>: every row without its first column.\<close>

definition iloc_cols_from1 :: "cell list list \<Rightarrow> cell list list" where
  "iloc_cols_from1 fr = map tl fr"

subsection \<open>\<open>ImageTextContrastiveDataset.__getitem__\<close>\<close>

text \<open>
  \<open>image_open\<close> stands for \<open>Image.open\<close> on the file system: \<open>None\<close> when the file
  cannot be opened. \<open>unsqueeze(1)\<close> wraps every slice along dimension 0 in a new
  dimension of size one.
\<close>

definition unsqueeze1 :: "'plane list \<Rightarrow> 'plane list list" where
  "unsqueeze1 t = map (\<lambda>p. [p]) t"

definition report_or_empty :: "meta_row \<Rightarrow> string" where
  "report_or_empty row = (case report row of None \<Rightarrow> '''' | Some t \<Rightarrow> t)"

definition getitem ::
  "(string \<Rightarrow> 'pil option) \<Rightarrow> ('pil, 'plane) dataset \<Rightarrow> nat \<Rightarrow> int
     \<Rightarrow> error + ('plane list list \<times> string)" where
  "getitem image_open ds r index =
     (case iloc (df ds) index of
        Inl e \<Rightarrow> Inl e
      | Inr row \<Rightarrow>
         (case image_open (imgpath row) of
            None \<Rightarrow> Inl IOError
          | Some pic \<Rightarrow>
             (let img = unsqueeze1 (transform ds pic);
                  report0 = report_or_empty row
              in if list_all (\<lambda>l. eq0 (row_labels row l)) dataset_labels then
                   (case sample r (filter (\<lambda>s. sent_labels s ''No Finding'' > 0) (sentence_label ds)) of
                      Inl e \<Rightarrow> Inl e
                    | Inr sampled_sent \<Rightarrow> Inr (img, report0 @ '' '' @ Reports sampled_sent))
                 else
                   (let bool_sent_label = zero_negative (mul_labels (sentence_label ds) row);
                        sents = loc (sentence_label ds)
                                  (map Not (all_zero (iloc_cols_from1 bool_sent_label)))
                    in case (if length sents = 0
                             then sample r (loc (sentence_label ds) (map Not (all_zero bool_sent_label)))
                             else sample r sents) of
                         Inl e \<Rightarrow> Inl e
                       | Inr sampled_sent \<Rightarrow> Inr (img, report0 @ '' '' @ Reports sampled_sent)))))"

text \<open>
  The sets of sentences the sampling heuristic is described with: a sentence has a
  positive product with the row on one of the labels \<open>ls\<close>. A product with a missing
  cell is NaN and is not positive.
\<close>

fun positive :: "cell \<Rightarrow> bool" where
  "positive (Val v) = (0 < v)"
| "positive NaN = False"

definition positive_on :: "string list \<Rightarrow> meta_row \<Rightarrow> sent_row \<Rightarrow> bool" where
  "positive_on ls row s =
     list_ex (\<lambda>l. positive (times_cell (sent_labels s l) (row_labels row l))) ls"

definition pathology_sents :: "('pil, 'plane) dataset \<Rightarrow> meta_row \<Rightarrow> sent_row list" where
  "pathology_sents ds row = filter (positive_on (tl dataset_labels) row) (sentence_label ds)"

definition any_label_sents :: "('pil, 'plane) dataset \<Rightarrow> meta_row \<Rightarrow> sent_row list" where
  "any_label_sents ds row = filter (positive_on dataset_labels row) (sentence_label ds)"

definition no_finding_sents :: "('pil, 'plane) dataset \<Rightarrow> sent_row list" where
  "no_finding_sents ds = filter (\<lambda>s. sent_labels s ''No Finding'' > 0) (sentence_label ds)"

text \<open>A row is numeric on the labels \<open>ls\<close> when none of these cells is missing.\<close>

definition numeric_on :: "string list \<Rightarrow> meta_row \<Rightarrow> bool" where
  "numeric_on ls row = list_all (\<lambda>l. row_labels row l \<noteq> NaN) ls"


text \<open>
  The pool the heuristic is described with: the sentences with a positive product on one
  of the 13 labels after 'No Finding' when there is one, and otherwise the sentences with
  a positive product on one of the 14 labels.
\<close>

definition sampling_pool :: "('pil, 'plane) dataset \<Rightarrow> meta_row \<Rightarrow> sent_row list" where
  "sampling_pool ds row =
     (if pathology_sents ds row = [] then any_label_sents ds row else pathology_sents ds row)"

subsection \<open>A small dataset\<close>

text \<open>
  Three sentences and five rows of metadata. The first three rows have numbers in every
  label cell; the last two are rows of a CSV file with an empty label cell, which
  \<open>pd.read_csv\<close> reads as NaN.
\<close>

definition ex_sentences :: "sent_row list" where
  "ex_sentences =
     [\<lparr>Reports = ''no acute disease'', sent_labels = (\<lambda>_. 0)(''No Finding'' := 1)\<rparr>,
      \<lparr>Reports = ''mild edema'', sent_labels = (\<lambda>_. 0)(''Edema'' := 1)\<rparr>,
      \<lparr>Reports = ''no edema'', sent_labels = (\<lambda>_. 0)(''Edema'' := - 1)\<rparr>]"

definition ex_row_edema :: meta_row where
  "ex_row_edema = \<lparr>imgpath = ''a.jpg'', report = Some ''heart size normal'',
                   row_labels = (\<lambda>_. Val 0)(''Edema'' := Val 1)\<rparr>"

definition ex_row_blank :: meta_row where
  "ex_row_blank = \<lparr>imgpath = ''b.jpg'', report = None, row_labels = (\<lambda>_. Val 0)\<rparr>"

definition ex_row_fracture :: meta_row where
  "ex_row_fracture = \<lparr>imgpath = ''c.jpg'', report = Some ''rib'',
                      row_labels = (\<lambda>_. Val 0)(''Fracture'' := Val 1)\<rparr>"

definition ex_row_edema_nan :: meta_row where
  "ex_row_edema_nan = \<lparr>imgpath = ''d.jpg'', report = Some ''heart size normal'',
                       row_labels = (\<lambda>_. Val 0)(''Edema'' := Val 1, ''Fracture'' := NaN)\<rparr>"

definition ex_row_fracture_nan :: meta_row where
  "ex_row_fracture_nan = \<lparr>imgpath = ''e.jpg'', report = Some ''rib'',
                          row_labels = (\<lambda>_. Val 0)(''Fracture'' := Val 1, ''Pleural Other'' := NaN)\<rparr>"

definition ex_ds :: "(nat, nat) dataset" where
  "ex_ds = \<lparr>df = [ex_row_edema, ex_row_blank, ex_row_fracture, ex_row_edema_nan,
                  ex_row_fracture_nan],
            transform = (\<lambda>pic. [pic]), sentence_label = ex_sentences\<rparr>"

text \<open>Every file opens but \<open>missing.jpg\<close>; a picture is stood for by a number.\<close>

definition ex_open :: "string \<Rightarrow> nat option" where
  "ex_open path = (if path = ''missing.jpg'' then None else Some (length path))"

section \<open>Batching, loss wrapper and warm-up of the pretraining script\<close>

subsection \<open>\<open>collate_fn\<close>\<close>

text \<open>
  The tokenizer is the pretrained tokenizer of the transformer library, taken as a
  parameter: it maps the list of reports of a batch to the padded, truncated token rows
  and their attention masks, one row per report.
\<close>

record text_inputs =
  input_ids :: "nat list list"
  attention_mask :: "nat list list"

text \<open>The values of the returned mapping: the stacked pictures, or rows of integers.\<close>

datatype 'plane batch_value =
    Pixels "'plane list list"
  | Tokens "nat list list"

text \<open>
  \<open>torch.cat(tensors, 0)\<close>: the slices of the tensors along dimension 0, one tensor after the
  other; on an empty list it raises RuntimeError. The slices are taken to have one shape,
  as \<open>Resize((256,256))\<close> makes them.
\<close>

definition torch_cat :: "'a list list \<Rightarrow> error + 'a list" where
  "torch_cat tensors = (if tensors = [] then Inl RuntimeError else Inr (concat tensors))"

text \<open>The loop over the batch: it appends the picture of each item to
  \<open>inputs['pixel_values']\<close> and its report to \<open>report_list\<close>.\<close>

definition collect_batch ::
  "('plane list list \<times> string) list \<Rightarrow> 'plane list list list \<times> string list" where
  "collect_batch batch =
     foldl (\<lambda>(pixel_list, report_list) data. (pixel_list @ [fst data], report_list @ [snd data]))
       ([], []) batch"

definition collate_fn ::
  "(string list \<Rightarrow> text_inputs) \<Rightarrow> ('plane list list \<times> string) list
     \<Rightarrow> error + (string \<times> 'plane batch_value) list" where
  "collate_fn tokenizer batch =
     (case collect_batch batch of
        (pixel_list, report_list) \<Rightarrow>
          (let text_inputs = tokenizer report_list
           in case torch_cat pixel_list of
                Inl e \<Rightarrow> Inl e
              | Inr pixel_values \<Rightarrow>
                  Inr [(''pixel_values'', Pixels pixel_values),
                       (''input_ids'', Tokens (input_ids text_inputs)),
                       (''attention_mask'', Tokens (attention_mask text_inputs))]))"

text \<open>
  The pairing of pictures and reports, as a check on a batch and the stacked pictures:
  the stack has one row per item, and row \<open>i\<close> is the picture of item \<open>i\<close>.
\<close>

definition rows_match :: "'plane list list \<Rightarrow> ('plane list list \<times> string) list \<Rightarrow> bool" where
  "rows_match pixel_values batch =
     (length pixel_values = length batch
      \<and> list_all2 (\<lambda>row data. fst data = [row]) pixel_values batch)"

definition pairing_preserved ::
  "(string list \<Rightarrow> text_inputs) \<Rightarrow> ('plane list list \<times> string) list \<Rightarrow> bool" where
  "pairing_preserved tokenizer batch =
     (case collate_fn tokenizer batch of
        Inl e \<Rightarrow> False
      | Inr inputs \<Rightarrow>
          map fst inputs = [''pixel_values'', ''input_ids'', ''attention_mask'']
          \<and> (case map_of inputs ''pixel_values'' of
                Some (Pixels pixel_values) \<Rightarrow> rows_match pixel_values batch
              | _ \<Rightarrow> False)
          \<and> map_of inputs ''input_ids'' = Some (Tokens (input_ids (tokenizer (map snd batch))))
          \<and> map_of inputs ''attention_mask'' =
                Some (Tokens (attention_mask (tokenizer (map snd batch)))))"

text \<open>A tokenizer and two batches to run \<open>collate_fn\<close> on: single-channel pictures, and a
  batch whose first picture has two slices along dimension 0.\<close>

definition ex_tokenizer :: "string list \<Rightarrow> text_inputs" where
  "ex_tokenizer reports =
     \<lparr>input_ids = map (\<lambda>t. [length t]) reports, attention_mask = map (\<lambda>t. [1]) reports\<rparr>"

definition ex_batch_gray :: "(nat list list \<times> string) list" where
  "ex_batch_gray = [([[1]], ''a''), ([[2]], ''bc'')]"

definition ex_batch_two_slices :: "(nat list list \<times> string) list" where
  "ex_batch_two_slices = [([[1], [2]], ''a''), ([[3]], ''bc'')]"

subsection \<open>\<open>ImageTextContrastiveLoss.forward\<close>\<close>

text \<open>
  The wrapped model is a parameter: called with the three inputs and \<open>return_loss\<close>, it
  raises or returns a mapping from names to values. \<open>forward\<close> ignores its further keyword
  arguments; reading a missing \<open>'loss_value'\<close> raises KeyError.
\<close>

definition forward ::
  "('ids \<Rightarrow> 'pix \<Rightarrow> 'msk \<Rightarrow> bool \<Rightarrow> error + (string \<rightharpoonup> 'v))
     \<Rightarrow> 'ids \<Rightarrow> 'pix \<Rightarrow> 'msk \<Rightarrow> 'kw \<Rightarrow> error + (string \<times> 'v) list" where
  "forward model inp_ids pixel_values attn_mask kwargs =
     (case model inp_ids pixel_values attn_mask True of
        Inl e \<Rightarrow> Inl e
      | Inr outputs \<Rightarrow>
          (case outputs ''loss_value'' of
             None \<Rightarrow> Inl KeyError
           | Some loss_value \<Rightarrow> Inr [(''loss_value'', loss_value)]))"

definition ex_model :: "nat \<Rightarrow> nat \<Rightarrow> nat \<Rightarrow> bool \<Rightarrow> error + (string \<rightharpoonup> int)" where
  "ex_model i p m return_loss =
     Inr (if return_loss
          then [''logits'' \<mapsto> int (i + p), ''loss_value'' \<mapsto> int (i + p + m)]
          else [''logits'' \<mapsto> int (i + p)])"

subsection \<open>Training configuration and warm-up steps\<close>

text \<open>
  \<open>train_config\<close> of the pretraining script. The decimal literals are exact rationals here:
  \<open>0.01\<close> is 1/100.
\<close>

record train_config =
  batch_size :: nat
  num_epochs :: nat
  warmup :: rat
  lr :: rat
  weight_decay :: rat
  eval_batch_size :: nat
  eval_steps :: nat
  save_steps :: nat

definition pretrain_config :: train_config where
  "pretrain_config =
     \<lparr>batch_size = 128, num_epochs = 3, warmup = 1 / 100, lr = 5 / 100000,
      weight_decay = 1 / 100, eval_batch_size = 128, eval_steps = 100, save_steps = 500\<rparr>"

text \<open>\<open>math.ceil(len(traindata) * train_config['num_epochs'] * train_config['warmup'])\<close>.\<close>

definition warmup_steps :: "nat \<Rightarrow> nat" where
  "warmup_steps len_traindata =
     nat \<lceil>of_nat (len_traindata * num_epochs pretrain_config) * warmup pretrain_config\<rceil>"

text \<open>
  What the configuration comment describes, in the words of the claim: the optimizer
  steps number dataset_length / batch_size per epoch, and the warm-up is the first 1% of
  the training steps of all epochs.
\<close>

definition steps_per_epoch :: "nat \<Rightarrow> rat" where
  "steps_per_epoch len_traindata = of_nat len_traindata / of_nat (batch_size pretrain_config)"

definition one_percent_of_training_steps :: "nat \<Rightarrow> rat" where
  "one_percent_of_training_steps len_traindata =
     steps_per_epoch len_traindata * of_nat (num_epochs pretrain_config) * warmup pretrain_config"


section \<open>The linear-probe script (run_linear_probe.py)\<close>

subsection \<open>What the scripts build\<close>

text \<open>
  The constants \<open>CHEXPERT_COMPETITION_TASKS\<close>, \<open>COVID_TASKS\<close> and \<open>RSNA_TASKS\<close> of the
  \<open>medclip\<close> package are named, not read: their lists of class names are a parameter
  where a script looks into them.
\<close>

datatype tasks = CHEXPERT_COMPETITION_TASKS | COVID_TASKS | RSNA_TASKS

text \<open>
  The objects a script builds, in the order it builds them: the pretrained model, the
  vision model, the classifier on top of it, a dataset for a list of tasks, a data
  loader with its batch size, the prompt classifier, the evaluator with its mode, a call
  of the trainer and a call of the evaluator.
\<close>

datatype event =
    LoadMedClipModel bool
  | LoadVisionModel bool
  | BuildClassifier nat string nat
  | BuildDataset string tasks
  | BuildDataLoader nat
  | BuildPromptClassifier bool
  | BuildEvaluator string
  | Train
  | Evaluate

subsection \<open>Task configuration of the linear probe\<close>

record probe_setup =
  probe_tasks :: tasks
  num_class :: nat
  mode :: string
  train_dataname :: string
  val_dataname :: string

definition probe_dispatch :: "string \<Rightarrow> error + probe_setup" where
  "probe_dispatch dataname =
     (if dataname \<in> set [''chexpert-5x200'', ''mimic-5x200''] then
        Inr \<lparr>probe_tasks = CHEXPERT_COMPETITION_TASKS, num_class = 5, mode = ''multiclass'',
             train_dataname = dataname @ ''-finetune'', val_dataname = dataname\<rparr>
      else if dataname = ''covid'' then
        Inr \<lparr>probe_tasks = COVID_TASKS, num_class = 2, mode = ''binary'',
             train_dataname = dataname @ ''-0.2-train'', val_dataname = dataname @ ''-test''\<rparr>
      else if dataname = ''covid-2x200'' then
        Inr \<lparr>probe_tasks = COVID_TASKS, num_class = 2, mode = ''binary'',
             train_dataname = dataname @ ''-train'', val_dataname = dataname @ ''-test''\<rparr>
      else if dataname \<in> set [''rsna-balanced'', ''rsna-2x200''] then
        Inr \<lparr>probe_tasks = RSNA_TASKS, num_class = 2, mode = ''binary'',
             train_dataname = dataname @ ''-train'', val_dataname = dataname @ ''-test''\<rparr>
      else Inl NotImplementedError)"

definition probe_config :: train_config where
  "probe_config =
     \<lparr>batch_size = 64, num_epochs = 10, warmup = 1 / 10, lr = 5 / 10000,
      weight_decay = 0, eval_batch_size = 256, eval_steps = 50, save_steps = 50\<rparr>"

definition probe_vit :: bool where
  "probe_vit = False"

subsection \<open>Freezing the backbone\<close>

text \<open>
  A parameter of the classifier: its value and its \<open>requires_grad\<close> flag.
  \<open>clf.named_parameters()\<close> is the list of the parameters with their names.
\<close>

record 'v param =
  data :: 'v
  requires_grad :: bool

type_synonym 'v named_parameters = "(string \<times> 'v param) list"

text \<open>The loop of lines 100-102.\<close>

definition freeze_backbone :: "'v named_parameters \<Rightarrow> 'v named_parameters" where
  "freeze_backbone ps =
     map (\<lambda>(name, p). if name \<notin> set [''fc.weight'', ''fc.bias'']
                        then (name, p\<lparr>requires_grad := False\<rparr>) else (name, p)) ps"

text \<open>
  Modelled from the spec: the trainer (\<open>medclip.trainer.Trainer.train\<close>) and the optimizer
  it drives are not among the sources. The spec has "fine-tune a linear classification
  head on frozen vision features": one optimisation step gives a new value to every
  parameter that requires a gradient and leaves every other parameter as it is. The new
  values are a parameter, \<open>step name old_value\<close>.
\<close>

definition optimizer_step ::
  "(string \<Rightarrow> 'v \<Rightarrow> 'v) \<Rightarrow> 'v named_parameters \<Rightarrow> 'v named_parameters" where
  "optimizer_step step ps =
     map (\<lambda>(name, p). if requires_grad p then (name, p\<lparr>data := step name (data p)\<rparr>)
                        else (name, p)) ps"

fun train :: "(nat \<Rightarrow> string \<Rightarrow> 'v \<Rightarrow> 'v) \<Rightarrow> nat \<Rightarrow> 'v named_parameters \<Rightarrow> 'v named_parameters" where
  "train steps 0 ps = ps"
| "train steps (Suc n) ps = optimizer_step (steps n) (train steps n ps)"

text \<open>The values of the parameters outside the classification head, with their names.\<close>

definition backbone_values :: "'v named_parameters \<Rightarrow> (string \<times> 'v) list" where
  "backbone_values ps =
     map (\<lambda>(name, p). (name, data p))
       (filter (\<lambda>(name, p). name \<notin> set [''fc.weight'', ''fc.bias'']) ps)"

text \<open>Every parameter outside the classification head has \<open>requires_grad = False\<close>.\<close>

definition head_only_trainable :: "'v named_parameters \<Rightarrow> bool" where
  "head_only_trainable ps =
     list_all (\<lambda>(name, p). name \<in> set [''fc.weight'', ''fc.bias''] \<or> \<not> requires_grad p) ps"

subsection \<open>The script\<close>

text \<open>
  A value returned by the evaluator under a key: a number, or an array (the predictions
  and the labels).
\<close>

datatype res_value = Scalar real | Array "real list"

text \<open>
  What the script gets from outside: the parameters of the classifier as built, the
  updates and the number of steps of the training run, and the result of the evaluator.
\<close>

record 'v probe_env =
  clf_parameters :: "'v named_parameters"
  train_updates :: "nat \<Rightarrow> string \<Rightarrow> 'v \<Rightarrow> 'v"
  train_step_count :: nat
  probe_evaluate :: "(string \<times> res_value) list"

text \<open>The keys printed after an evaluation: all but \<open>'pred'\<close> and \<open>'labels'\<close>.\<close>

definition printed_metrics :: "(string \<times> res_value) list \<Rightarrow> (string \<times> res_value) list" where
  "printed_metrics res = filter (\<lambda>(key, v). key \<notin> set [''pred'', ''labels'']) res"

definition probe_main ::
  "'v probe_env \<Rightarrow> string
     \<Rightarrow> event list \<times> (error + 'v named_parameters \<times> (string \<times> res_value) list)" where
  "probe_main env dataname =
     (case probe_dispatch dataname of
        Inl e \<Rightarrow> ([], Inl e)
      | Inr setup \<Rightarrow>
          (let clf = freeze_backbone (clf_parameters env);
               trained = train (train_updates env) (train_step_count env) clf
           in ([LoadVisionModel probe_vit,
                BuildClassifier (num_class setup) (mode setup) (if probe_vit then 768 else 512),
                BuildDataset (train_dataname setup) (probe_tasks setup),
                BuildDataLoader (batch_size probe_config),
                BuildDataset (val_dataname setup) (probe_tasks setup),
                BuildDataLoader (eval_batch_size probe_config),
                BuildEvaluator (mode setup),
                Train,
                Evaluate],
               Inr (trained, printed_metrics (probe_evaluate env)))))"

definition ex_clf_parameters :: "int named_parameters" where
  "ex_clf_parameters =
     [(''model.conv1.weight'', \<lparr>data = 7, requires_grad = True\<rparr>),
      (''model.layer1.bias'', \<lparr>data = 8, requires_grad = True\<rparr>),
      (''fc.weight'', \<lparr>data = 1, requires_grad = True\<rparr>),
      (''fc.bias'', \<lparr>data = 2, requires_grad = True\<rparr>)]"

definition ex_updates :: "nat \<Rightarrow> string \<Rightarrow> int \<Rightarrow> int" where
  "ex_updates n name x = x + 10"


section \<open>The zero-shot evaluation script (eval_zeroshot_classification.py)\<close>

subsection \<open>Configuration and task dispatch\<close>

definition n_runs :: nat where
  "n_runs = 5"

definition ensemble :: bool where
  "ensemble = True"

definition zeroshot_vit :: bool where
  "zeroshot_vit = True"

definition zeroshot_dispatch :: "string \<Rightarrow> error + tasks" where
  "zeroshot_dispatch dataname =
     (if dataname \<in> set [''chexpert-5x200'', ''mimic-5x200''] then Inr CHEXPERT_COMPETITION_TASKS
      else if dataname \<in> set [''covid-test'', ''covid-2x200-test''] then Inr COVID_TASKS
      else if dataname \<in> set [''rsna-balanced-test'', ''rsna-2x200-test''] then Inr RSNA_TASKS
      else Inl NotImplementedError)"

subsection \<open>Prompts and their assertions\<close>

text \<open>
  What the script gets from the \<open>medclip\<close> package and the evaluator: the class names of
  the task constants, the keys of the prompt dictionaries generated in run \<open>i\<close>, in
  order, and the result of \<open>evaluator.evaluate()\<close> in run \<open>i\<close>, in the order of its keys.
\<close>

record zeroshot_env =
  task_names :: "tasks \<Rightarrow> string list"
  chexpert_prompt_keys :: "nat \<Rightarrow> string list"
  sentence_prompt_keys :: "nat \<Rightarrow> string list"
  covid_prompt_keys :: "nat \<Rightarrow> string list"
  rsna_prompt_keys :: "nat \<Rightarrow> string list"
  evaluate :: "nat \<Rightarrow> (string \<times> res_value) list"

text \<open>The keys of \<open>d1\<close> after \<open>d1.update(d2)\<close>: those of \<open>d1\<close>, then the new ones of \<open>d2\<close>.\<close>

definition dict_update_keys :: "string list \<Rightarrow> string list \<Rightarrow> string list" where
  "dict_update_keys d1 d2 = d1 @ filter (\<lambda>k. k \<notin> set d1) d2"

text \<open>\<open>xs[1]\<close> raises IndexError on a list of fewer than two elements.\<close>

definition index1 :: "'a list \<Rightarrow> error + 'a" where
  "index1 xs = (if 1 < length xs then Inr (xs ! 1) else Inl IndexError)"

definition assert_second_key :: "string list \<Rightarrow> string list \<Rightarrow> error + unit" where
  "assert_second_key cls_prompts tsk =
     (case index1 cls_prompts of
        Inl e \<Rightarrow> Inl e
      | Inr k \<Rightarrow>
          (case index1 tsk of
             Inl e \<Rightarrow> Inl e
           | Inr t \<Rightarrow> if k = t then Inr () else Inl AssertionError))"

text \<open>
  The body of one run up to the evaluator: the prompts, the assertion on their keys, and
  the objects built after it.
\<close>

definition build_evaluator :: "zeroshot_env \<Rightarrow> string \<Rightarrow> tasks \<Rightarrow> nat \<Rightarrow> error + event list" where
  "build_evaluator env dataname tsk i =
     (if dataname \<in> set [''chexpert-5x200'', ''mimic-5x200''] then
        (if chexpert_prompt_keys env i = task_names env tsk
         then Inr [BuildDataLoader 128, BuildPromptClassifier ensemble, BuildEvaluator ''multiclass'']
         else Inl AssertionError)
      else if dataname \<in> set [''covid-test'', ''covid-2x200-test''] then
        (case assert_second_key
                (dict_update_keys (sentence_prompt_keys env i) (covid_prompt_keys env i))
                (task_names env tsk) of
           Inl e \<Rightarrow> Inl e
         | Inr u \<Rightarrow>
             Inr [BuildDataLoader 128, BuildPromptClassifier ensemble, BuildEvaluator ''binary''])
      else if dataname \<in> set [''rsna-balanced-test'', ''rsna-2x200-test''] then
        (case assert_second_key
                (dict_update_keys (sentence_prompt_keys env i) (rsna_prompt_keys env i))
                (task_names env tsk) of
           Inl e \<Rightarrow> Inl e
         | Inr u \<Rightarrow>
             Inr [BuildDataLoader 128, BuildPromptClassifier ensemble, BuildEvaluator ''binary''])
      else Inl NotImplementedError)"

subsection \<open>Collecting and aggregating the metrics\<close>

text \<open>
  \<open>metrc_list\<close> is a \<open>defaultdict(list)\<close>, kept in the order in which its keys were first
  used. \<open>metrc_list[key].append(v)\<close>:
\<close>

definition append_metric ::
  "string \<Rightarrow> res_value \<Rightarrow> (string \<times> res_value list) list \<Rightarrow> (string \<times> res_value list) list" where
  "append_metric key v ml =
     (if key \<in> set (map fst ml)
      then map (\<lambda>(k, vs). if k = key then (k, vs @ [v]) else (k, vs)) ml
      else ml @ [(key, [v])])"

text \<open>The loop over \<open>res.keys()\<close> of lines 149-152.\<close>

definition collect_metrics ::
  "(string \<times> res_value) list \<Rightarrow> (string \<times> res_value list) list
     \<Rightarrow> (string \<times> res_value list) list" where
  "collect_metrics res ml =
     foldl (\<lambda>ml (key, v). if key \<notin> set [''pred'', ''labels''] then append_metric key v ml else ml)
       ml res"

text \<open>
  \<open>np.mean\<close> and \<open>np.std\<close> of a list of values, over the real numbers: the arithmetic
  mean of all the numbers in the list, and the square root of the mean of the squared
  deviations from it (\<open>ddof = 0\<close>, the population standard deviation).
\<close>

fun flat :: "res_value \<Rightarrow> real list" where
  "flat (Scalar x) = [x]"
| "flat (Array xs) = xs"

definition np_mean :: "res_value list \<Rightarrow> real" where
  "np_mean value = (let xs = concat (map flat value) in sum_list xs / real (length xs))"

definition np_std :: "res_value list \<Rightarrow> real" where
  "np_std value =
     (let xs = concat (map flat value);
          m = sum_list xs / real (length xs)
      in sqrt (sum_list (map (\<lambda>x. (x - m)\<^sup>2) xs) / real (length xs)))"

subsection \<open>The script\<close>

record zeroshot_state =
  trace :: "event list"
  metrc_list :: "(string \<times> res_value list) list"

definition run_once ::
  "zeroshot_env \<Rightarrow> string \<Rightarrow> tasks \<Rightarrow> nat \<Rightarrow> zeroshot_state \<Rightarrow> error + zeroshot_state" where
  "run_once env dataname tsk i st =
     (case build_evaluator env dataname tsk i of
        Inl e \<Rightarrow> Inl e
      | Inr built \<Rightarrow>
          Inr \<lparr>trace = trace st @ built @ [Evaluate],
               metrc_list = collect_metrics (evaluate env i) (metrc_list st)\<rparr>)"

text \<open>\<open>for i in range(n_runs)\<close>: the runs in order, stopping at the first exception.\<close>

fun runs ::
  "zeroshot_env \<Rightarrow> string \<Rightarrow> tasks \<Rightarrow> nat list \<Rightarrow> zeroshot_state \<Rightarrow> error + zeroshot_state" where
  "runs env dataname tsk [] st = Inr st"
| "runs env dataname tsk (i # is) st =
     (case run_once env dataname tsk i st of
        Inl e \<Rightarrow> Inl e
      | Inr st' \<Rightarrow> runs env dataname tsk is st')"

text \<open>
  The whole script: the built objects, and either the exception or the lines of the final
  report, one per key of \<open>metrc_list\<close> with the mean and the standard deviation (the
  script prints them rounded to 4 and 2 decimals).
\<close>

definition zeroshot_main ::
  "zeroshot_env \<Rightarrow> string \<Rightarrow> event list \<times> (error + (string \<times> real \<times> real) list)" where
  "zeroshot_main env dataname =
     (case zeroshot_dispatch dataname of
        Inl e \<Rightarrow> ([LoadMedClipModel zeroshot_vit], Inl e)
      | Inr tsk \<Rightarrow>
          (case runs env dataname tsk [0..<n_runs]
                  \<lparr>trace = [LoadMedClipModel zeroshot_vit, BuildDataset dataname tsk],
                   metrc_list = []\<rparr> of
             Inl e \<Rightarrow> ([LoadMedClipModel zeroshot_vit, BuildDataset dataname tsk], Inl e)
           | Inr st \<Rightarrow>
               (trace st,
                Inr (map (\<lambda>(key, value). (key, np_mean value, np_std value)) (metrc_list st)))))"

text \<open>The objects that are built for a task: everything but the pretrained model.\<close>

fun task_specific :: "event \<Rightarrow> bool" where
  "task_specific (LoadMedClipModel v) = False"
| "task_specific e = True"

text \<open>An environment to run the script on: the evaluator returns an accuracy that grows
  with the run, the predictions and the labels.\<close>

definition ex_env :: zeroshot_env where
  "ex_env =
     \<lparr>task_names = (\<lambda>t. [''Normal'', ''Pneumonia'']),
      chexpert_prompt_keys = (\<lambda>i. []),
      sentence_prompt_keys = (\<lambda>i. [''No Finding'']),
      covid_prompt_keys = (\<lambda>i. [''COVID'']),
      rsna_prompt_keys = (\<lambda>i. [''Pneumonia'']),
      evaluate = (\<lambda>i. [(''acc'', Scalar (real i)), (''pred'', Array [0, 1]),
                        (''labels'', Array [1, 1])])\<rparr>"

text \<open>The dataset names each script recognizes.\<close>

definition zeroshot_datanames :: "string list" where
  "zeroshot_datanames =
     [''chexpert-5x200'', ''mimic-5x200'', ''covid-test'', ''covid-2x200-test'',
      ''rsna-balanced-test'', ''rsna-2x200-test'']"

definition probe_datanames :: "string list" where
  "probe_datanames =
     [''chexpert-5x200'', ''mimic-5x200'', ''covid'', ''covid-2x200'', ''rsna-balanced'',
      ''rsna-2x200'']"

definition ex_probe_env :: "int probe_env" where
  "ex_probe_env =
     \<lparr>clf_parameters = ex_clf_parameters, train_updates = ex_updates, train_step_count = 3,
      probe_evaluate = [(''acc'', Scalar 1), (''pred'', Array [0, 1]), (''labels'', Array [1, 1])]\<rparr>"

text \<open>The list collected under a key of \<open>metrc_list\<close>; empty when the key is not there.\<close>

definition values_of :: "(string \<times> 'a list) list \<Rightarrow> string \<Rightarrow> 'a list" where
  "values_of ml key = (case map_of ml key of None \<Rightarrow> [] | Some vs \<Rightarrow> vs)"

text \<open>The values an evaluation result holds under a key.\<close>

definition entries_of :: "(string \<times> 'a) list \<Rightarrow> string \<Rightarrow> 'a list" where
  "entries_of res key = map snd (filter (\<lambda>(k, v). k = key) res)"


section \<open>Properties of the pretraining dataset\<close>

lemma loc_map_mask: "loc fr (map h fr) = filter h fr"
  unfolding loc_def by (induction fr) auto

lemma sample_in_set: "sample r fr = Inr s \<Longrightarrow> s \<in> set fr"
  unfolding sample_def by (auto split: if_splits)

lemma sample_reaches: "s \<in> set fr \<Longrightarrow> \<exists>r. sample r fr = Inr s"
proof -
  assume "s \<in> set fr"
  then obtain i where i: "i < length fr" "fr ! i = s"
    by (auto simp: in_set_conv_nth)
  then have "sample i fr = Inr s"
    by (auto simp: sample_def)
  then show ?thesis ..
qed

lemma sample_empty_iff: "sample r fr = Inl ValueError \<longleftrightarrow> fr = []"
  unfolding sample_def by auto

lemma eq0_iff: "eq0 c \<longleftrightarrow> c = Val 0"
  by (cases c) auto

lemma times_cell_NaN_iff: "times_cell a c = NaN \<longleftrightarrow> c = NaN"
  by (cases c) auto

lemma zeroed_cell_nonzero_iff:
  "\<not> eq0 (if less0 x then Val 0 else x) \<longleftrightarrow> positive x \<or> x = NaN"
  by (cases x) auto

lemma zeroed_nonzero_iff:
  "(\<not> list_all eq0 (map ((\<lambda>x. if less0 x then Val 0 else x) \<circ> f) ls))
     = list_ex (\<lambda>l. positive (f l) \<or> f l = NaN) ls"
proof (induction ls)
  case Nil
  show ?case by simp
next
  case (Cons l ls)
  from zeroed_cell_nonzero_iff [of "f l"] Cons show ?case
    by (simp del: eq0.simps less0.simps positive.simps)
qed

text \<open>
  The mask of line 71 or 73 keeps a sentence when one of its products is positive, and
  keeps every sentence when the row has a missing cell among the labels looked at.
\<close>

lemma kept_iff:
  "list_ex (\<lambda>l. positive (times_cell (sent_labels s l) (row_labels row l))
               \<or> times_cell (sent_labels s l) (row_labels row l) = NaN) ls
     \<longleftrightarrow> positive_on ls row s \<or> \<not> numeric_on ls row"
  unfolding positive_on_def numeric_on_def list_ex_iff list_all_iff times_cell_NaN_iff
  by auto

lemma sents_mask:
  "map Not (all_zero (iloc_cols_from1 (zero_negative (mul_labels sl row))))
     = map (\<lambda>s. positive_on (tl dataset_labels) row s \<or> \<not> numeric_on (tl dataset_labels) row) sl"
  unfolding all_zero_def iloc_cols_from1_def zero_negative_def mul_labels_def
  by (simp add: map_tl[symmetric] zeroed_nonzero_iff kept_iff)

lemma fallback_mask:
  "map Not (all_zero (zero_negative (mul_labels sl row)))
     = map (\<lambda>s. positive_on dataset_labels row s \<or> \<not> numeric_on dataset_labels row) sl"
  unfolding all_zero_def zero_negative_def mul_labels_def
  by (simp add: zeroed_nonzero_iff kept_iff)

lemma sents_eq:
  "loc (sentence_label ds)
     (map Not (all_zero (iloc_cols_from1 (zero_negative (mul_labels (sentence_label ds) row)))))
   = (if numeric_on (tl dataset_labels) row then pathology_sents ds row else sentence_label ds)"
  by (simp add: sents_mask loc_map_mask pathology_sents_def)

lemma fallback_eq:
  "loc (sentence_label ds) (map Not (all_zero (zero_negative (mul_labels (sentence_label ds) row))))
   = (if numeric_on dataset_labels row then any_label_sents ds row else sentence_label ds)"
  by (simp add: fallback_mask loc_map_mask any_label_sents_def)

lemma numeric_on_tl: "numeric_on ls row \<Longrightarrow> numeric_on (tl ls) row"
  by (cases ls) (simp_all add: numeric_on_def)

lemma all_zero_row_iff:
  "list_all (\<lambda>l. eq0 (row_labels row l)) ls \<longleftrightarrow> list_all (\<lambda>l. row_labels row l = Val 0) ls"
  by (simp add: eq0_iff)

lemma missing_not_all_zero:
  "\<not> numeric_on ls row \<Longrightarrow> \<not> list_all (\<lambda>l. row_labels row l = Val 0) ls"
  by (fastforce simp: numeric_on_def list_all_iff)

lemma loc_Nil: "loc [] keep = []"
  by (simp add: loc_def)

lemma getitem_labelled_eq:
  assumes "iloc (df ds) index = Inr row"
    and "image_open (imgpath row) = Some pic"
    and "\<not> list_all (\<lambda>l. row_labels row l = Val 0) dataset_labels"
    and "numeric_on dataset_labels row"
  shows "getitem image_open ds r index =
           (case sample r (sampling_pool ds row) of
              Inl e \<Rightarrow> Inl e
            | Inr s \<Rightarrow> Inr (unsqueeze1 (transform ds pic),
                           report_or_empty row @ '' '' @ Reports s))"
  using assms numeric_on_tl [OF assms(4)]
  by (simp add: getitem_def Let_def all_zero_row_iff sents_eq fallback_eq sampling_pool_def)

lemma getitem_missing_eq:
  assumes "iloc (df ds) index = Inr row"
    and "image_open (imgpath row) = Some pic"
    and "\<not> numeric_on (tl dataset_labels) row"
  shows "getitem image_open ds r index =
           (case sample r (sentence_label ds) of
              Inl e \<Rightarrow> Inl e
            | Inr s \<Rightarrow> Inr (unsqueeze1 (transform ds pic),
                           report_or_empty row @ '' '' @ Reports s))"
proof -
  from assms(3) have nn: "\<not> numeric_on dataset_labels row"
    using numeric_on_tl by blast
  then have nz: "\<not> list_all (\<lambda>l. row_labels row l = Val 0) dataset_labels"
    by (rule missing_not_all_zero)
  from assms nn nz show ?thesis
    by (simp add: getitem_def Let_def all_zero_row_iff sents_eq fallback_eq loc_Nil)
qed

lemma getitem_blank_eq:
  assumes "iloc (df ds) index = Inr row"
    and "image_open (imgpath row) = Some pic"
    and "list_all (\<lambda>l. row_labels row l = Val 0) dataset_labels"
  shows "getitem image_open ds r index =
           (case sample r (no_finding_sents ds) of
              Inl e \<Rightarrow> Inl e
            | Inr s \<Rightarrow> Inr (unsqueeze1 (transform ds pic),
                           report_or_empty row @ '' '' @ Reports s))"
  using assms
  by (simp add: getitem_def Let_def all_zero_row_iff no_finding_sents_def)

lemma in_set_tl: "x \<in> set (tl xs) \<Longrightarrow> x \<in> set xs"
  by (cases xs) auto

lemma pathology_subset_any: "set (pathology_sents ds row) \<subseteq> set (any_label_sents ds row)"
  by (auto simp: pathology_sents_def any_label_sents_def positive_on_def list_ex_iff
      dest: in_set_tl)

lemma sampled_report_sound:
  assumes eq: "g = (case sample r pool of Inl e \<Rightarrow> Inl e | Inr s \<Rightarrow> Inr (img0, base @ '' '' @ Reports s))"
    and g: "g = Inr (img, rep)"
  shows "img = img0 \<and> (\<exists>s \<in> set pool. rep = base @ '' '' @ Reports s)"
proof (cases "sample r pool")
  case (Inl e)
  with eq g show ?thesis by simp
next
  case (Inr s)
  then have "s \<in> set pool" by (rule sample_in_set)
  moreover from eq g Inr have "img = img0" and "rep = base @ '' '' @ Reports s"
    by simp_all
  ultimately show ?thesis by blast
qed


lemma sampled_report_complete:
  assumes eq: "\<And>r. g r = (case sample r pool of Inl e \<Rightarrow> Inl e
                              | Inr s \<Rightarrow> Inr (img0, base @ '' '' @ Reports s))"
    and s: "s \<in> set pool"
  shows "\<exists>r. g r = Inr (img0, base @ '' '' @ Reports s)"
proof -
  from sample_reaches [OF s] obtain r where "sample r pool = Inr s" ..
  then have "g r = Inr (img0, base @ '' '' @ Reports s)"
    by (simp add: eq)
  then show ?thesis ..
qed


lemma sampling_pool_empty_iff:
  "sampling_pool ds row = [] \<longleftrightarrow> \<not> list_ex (positive_on dataset_labels row) (sentence_label ds)"
proof -
  have "pathology_sents ds row = []" if "any_label_sents ds row = []"
    using pathology_subset_any [of ds row] that by simp
  then have "sampling_pool ds row = [] \<longleftrightarrow> any_label_sents ds row = []"
    unfolding sampling_pool_def by (cases "pathology_sents ds row = []") auto
  then show ?thesis
    by (simp add: any_label_sents_def filter_empty_conv list_ex_iff)
qed

lemma sample_Inr_iff: "(\<exists>y. sample r fr = Inr y) \<longleftrightarrow> fr \<noteq> []"
  by (simp add: sample_def)

lemma sample_nil: "sample r [] = Inl ValueError"
  by (simp add: sample_def)

section \<open>The sampling heuristic of the pretraining dataset\<close>

subsection \<open>The example dataset, evaluated\<close>

lemma ex_iloc0: "iloc (df ex_ds) 0 = Inr ex_row_edema"
  by (simp add: iloc_def ex_ds_def)

lemma ex_iloc1: "iloc (df ex_ds) 1 = Inr ex_row_blank"
  by (simp add: iloc_def ex_ds_def)

lemma ex_iloc2: "iloc (df ex_ds) 2 = Inr ex_row_fracture"
  by (simp add: iloc_def ex_ds_def)

lemma ex_iloc3: "iloc (df ex_ds) 3 = Inr ex_row_edema_nan"
  by (simp add: iloc_def ex_ds_def)

lemma ex_iloc4: "iloc (df ex_ds) 4 = Inr ex_row_fracture_nan"
  by (simp add: iloc_def ex_ds_def)

lemma ex_open_edema: "ex_open (imgpath ex_row_edema) = Some 5"
  by (simp add: ex_open_def ex_row_edema_def)

lemma ex_open_blank: "ex_open (imgpath ex_row_blank) = Some 5"
  by (simp add: ex_open_def ex_row_blank_def)

lemma ex_open_fracture: "ex_open (imgpath ex_row_fracture) = Some 5"
  by (simp add: ex_open_def ex_row_fracture_def)

lemma ex_open_edema_nan: "ex_open (imgpath ex_row_edema_nan) = Some 5"
  by (simp add: ex_open_def ex_row_edema_nan_def)

lemma ex_open_fracture_nan: "ex_open (imgpath ex_row_fracture_nan) = Some 5"
  by (simp add: ex_open_def ex_row_fracture_nan_def)

lemma ex_edema_nonzero: "list_ex (\<lambda>l. row_labels ex_row_edema l \<noteq> Val 0) dataset_labels"
  by (simp add: dataset_labels_def ex_row_edema_def)

lemma ex_fracture_nonzero: "list_ex (\<lambda>l. row_labels ex_row_fracture l \<noteq> Val 0) dataset_labels"
  by (simp add: dataset_labels_def ex_row_fracture_def)

lemma ex_edema_nan_nonzero:
  "list_ex (\<lambda>l. row_labels ex_row_edema_nan l \<noteq> Val 0) dataset_labels"
  by (simp add: dataset_labels_def ex_row_edema_nan_def)

lemma ex_fracture_nan_nonzero:
  "list_ex (\<lambda>l. row_labels ex_row_fracture_nan l \<noteq> Val 0) dataset_labels"
  by (simp add: dataset_labels_def ex_row_fracture_nan_def)

lemma ex_edema_numeric: "numeric_on dataset_labels ex_row_edema"
  by (simp add: numeric_on_def dataset_labels_def ex_row_edema_def)

lemma ex_fracture_numeric: "numeric_on dataset_labels ex_row_fracture"
  by (simp add: numeric_on_def dataset_labels_def ex_row_fracture_def)

lemma ex_edema_nan_missing: "\<not> numeric_on (tl dataset_labels) ex_row_edema_nan"
  by (simp add: numeric_on_def dataset_labels_def ex_row_edema_nan_def)

lemma ex_fracture_nan_missing: "\<not> numeric_on (tl dataset_labels) ex_row_fracture_nan"
  by (simp add: numeric_on_def dataset_labels_def ex_row_fracture_nan_def)

lemma ex_blank_zero: "list_all (\<lambda>l. row_labels ex_row_blank l = Val 0) dataset_labels"
  by (simp add: dataset_labels_def ex_row_blank_def)

lemma ex_pool_edema:
  "sampling_pool ex_ds ex_row_edema =
     [\<lparr>Reports = ''mild edema'', sent_labels = (\<lambda>_. 0)(''Edema'' := 1)\<rparr>]"
  by (simp add: sampling_pool_def pathology_sents_def any_label_sents_def positive_on_def
      dataset_labels_def ex_ds_def ex_sentences_def ex_row_edema_def)

lemma ex_pathology_edema_nan:
  "map Reports (pathology_sents ex_ds ex_row_edema_nan) = [''mild edema'']"
  by (simp add: pathology_sents_def positive_on_def dataset_labels_def ex_ds_def
      ex_sentences_def ex_row_edema_nan_def)

lemma ex_no_match_fracture:
  "\<not> list_ex (positive_on dataset_labels ex_row_fracture) (sentence_label ex_ds)"
  by (simp add: positive_on_def dataset_labels_def ex_ds_def ex_sentences_def ex_row_fracture_def)

lemma ex_no_match_fracture_nan:
  "\<not> list_ex (positive_on dataset_labels ex_row_fracture_nan) (sentence_label ex_ds)"
  by (simp add: positive_on_def dataset_labels_def ex_ds_def ex_sentences_def
      ex_row_fracture_nan_def)

lemma ex_transform: "unsqueeze1 (transform ex_ds 5) = [[5]]"
  by (simp add: unsqueeze1_def ex_ds_def)

lemma ex_report_edema: "report ex_row_edema = Some ''heart size normal''"
  by (simp add: ex_row_edema_def)

lemma ex_report_blank: "report ex_row_blank = None"
  by (simp add: ex_row_blank_def)

lemma ex_report_edema_nan: "report_or_empty ex_row_edema_nan = ''heart size normal''"
  by (simp add: report_or_empty_def ex_row_edema_nan_def)

lemma ex_report_fracture_nan: "report_or_empty ex_row_fracture_nan = ''rib''"
  by (simp add: report_or_empty_def ex_row_fracture_nan_def)

lemma ex_sentence_label: "sentence_label ex_ds = ex_sentences"
  by (simp add: ex_ds_def)

lemma ex_sample0: "sample 0 ex_sentences = Inr (ex_sentences ! 0)"
  by (simp add: sample_def ex_sentences_def)

lemma ex_sample2: "sample 2 ex_sentences = Inr (ex_sentences ! 2)"
  by (simp add: sample_def ex_sentences_def)

lemma ex_reports0: "Reports (ex_sentences ! 0) = ''no acute disease''"
  by (simp add: ex_sentences_def)

lemma ex_reports2: "Reports (ex_sentences ! 2) = ''no edema''"
  by (simp add: ex_sentences_def)

subsection \<open>Rows with a nonzero label\<close>

text \<open>
  On a row with a nonzero structured label and a number in each of its 14 label cells,
  whose picture opens, \<open>__getitem__\<close> appends to the row's report (the empty string when
  the report is missing) one sentence of the sentence frame, drawn exactly from
  \<open>sampling_pool\<close>: the sentences with a positive product on one of the 13 labels other
  than 'No Finding' when there is such a sentence, and otherwise the sentences with a
  positive product on one of the 14 labels. Every returned report is the row's report, a
  space and a sentence of the pool, and every sentence of the pool is returned for some
  random draw.
\<close>

lemma getitem_numeric_row_sampling:
  assumes "iloc (df ds) index = Inr row"
    and "image_open (imgpath row) = Some pic"
    and "list_ex (\<lambda>l. row_labels row l \<noteq> Val 0) dataset_labels"
    and "numeric_on dataset_labels row"
  shows "(\<forall>r img rep. getitem image_open ds r index = Inr (img, rep) \<longrightarrow>
            img = unsqueeze1 (transform ds pic) \<and>
            (\<exists>s \<in> set (sampling_pool ds row).
               rep = (case report row of None \<Rightarrow> '''' | Some t \<Rightarrow> t) @ '' '' @ Reports s))
       \<and> (\<forall>s \<in> set (sampling_pool ds row). \<exists>r.
            getitem image_open ds r index =
              Inr (unsqueeze1 (transform ds pic),
                   (case report row of None \<Rightarrow> '''' | Some t \<Rightarrow> t) @ '' '' @ Reports s))"
proof -
  from assms(3) have nz: "\<not> list_all (\<lambda>l. row_labels row l = Val 0) dataset_labels"
    unfolding list_ex_iff list_all_iff by blast
  have eq: "getitem image_open ds r index =
           (case sample r (sampling_pool ds row) of
              Inl e \<Rightarrow> Inl e
            | Inr s \<Rightarrow> Inr (unsqueeze1 (transform ds pic),
                           report_or_empty row @ '' '' @ Reports s))"
    for r
    by (rule getitem_labelled_eq [where image_open = image_open and ds = ds and row = row
          and pic = pic and index = index and r = r, OF assms(1,2) nz assms(4)])
  have pre: "report_or_empty row = (case report row of None \<Rightarrow> '''' | Some t \<Rightarrow> t)"
    by (simp add: report_or_empty_def)
  show ?thesis
  proof (intro conjI allI impI ballI)
    fix r img rep
    assume g: "getitem image_open ds r index = Inr (img, rep)"
    from sampled_report_sound [OF eq g]
    show "img = unsqueeze1 (transform ds pic)"
      and "\<exists>s \<in> set (sampling_pool ds row).
             rep = (case report row of None \<Rightarrow> '''' | Some t \<Rightarrow> t) @ '' '' @ Reports s"
      by (simp_all add: pre)
  next
    fix s
    assume "s \<in> set (sampling_pool ds row)"
    with eq have "\<exists>r. getitem image_open ds r index =
              Inr (unsqueeze1 (transform ds pic), report_or_empty row @ '' '' @ Reports s)"
      by (rule sampled_report_complete)
    then show "\<exists>r. getitem image_open ds r index =
              Inr (unsqueeze1 (transform ds pic),
                   (case report row of None \<Rightarrow> '''' | Some t \<Rightarrow> t) @ '' '' @ Reports s)"
      by (simp add: pre)
  qed
qed

lemma getitem_numeric_row_sampling_example:
  "iloc (df ex_ds) 0 = Inr ex_row_edema
   \<and> ex_open (imgpath ex_row_edema) = Some 5
   \<and> list_ex (\<lambda>l. row_labels ex_row_edema l \<noteq> Val 0) dataset_labels
   \<and> numeric_on dataset_labels ex_row_edema
   \<and> \<not> (\<exists>r img rep. getitem ex_open ex_ds r 0 = Inr (img, rep) \<and>
         rep \<noteq> ''heart size normal mild edema'')
   \<and> (\<exists>r. getitem ex_open ex_ds r 0 = Inr ([[5]], ''heart size normal mild edema''))"
  using getitem_numeric_row_sampling [where image_open = ex_open and ds = ex_ds and index = 0
      and row = ex_row_edema and pic = 5,
      OF ex_iloc0 ex_open_edema ex_edema_nonzero ex_edema_numeric]
  by (simp add: ex_iloc0 ex_open_edema ex_edema_nonzero ex_edema_numeric ex_pool_edema
      ex_transform ex_report_edema)

text \<open>
  On a row with a missing cell among the 13 labels other than 'No Finding', every product
  in that column is NaN: it is not below zero, so line 70 leaves it, and it is not equal
  to zero, so the mask of line 71 keeps every sentence. \<open>__getitem__\<close> then draws from
  the whole sentence frame, whatever the signs of the labels.
\<close>

lemma getitem_missing_label_row_sampling:
  assumes "iloc (df ds) index = Inr row"
    and "image_open (imgpath row) = Some pic"
    and "\<not> numeric_on (tl dataset_labels) row"
    and "s \<in> set (sentence_label ds)"
  shows "\<exists>r. getitem image_open ds r index =
              Inr (unsqueeze1 (transform ds pic),
                   (case report row of None \<Rightarrow> '''' | Some t \<Rightarrow> t) @ '' '' @ Reports s)"
proof -
  have eq: "getitem image_open ds r index =
           (case sample r (sentence_label ds) of
              Inl e \<Rightarrow> Inl e
            | Inr s \<Rightarrow> Inr (unsqueeze1 (transform ds pic),
                           report_or_empty row @ '' '' @ Reports s))"
    for r
    by (rule getitem_missing_eq [where image_open = image_open and ds = ds and row = row
          and pic = pic and index = index and r = r, OF assms(1,2,3)])
  from eq assms(4) have "\<exists>r. getitem image_open ds r index =
              Inr (unsqueeze1 (transform ds pic), report_or_empty row @ '' '' @ Reports s)"
    by (rule sampled_report_complete)
  then show ?thesis
    by (simp add: report_or_empty_def)
qed

text \<open>
  Claim C1 (on a row with a nonzero label the sentence is drawn exactly from the sentences
  with a positive product on one of the 13 pathology labels when there is one, otherwise
  from those with a positive product on one of the 14 labels). Row 3 of the example is a
  row of the metadata file whose Edema cell is 1 and whose Fracture cell is empty. The
  only sentence with a positive product on a pathology label is 'mild edema', yet for the
  draw 2 \<open>__getitem__\<close> returns the report followed by 'no edema', the sentence whose
  Edema label has the opposite sign: the claim fails on this row. The metadata frame is
  read without the \<open>fillna(0)\<close> that line 50 applies to the sentence frame.
\<close>

theorem getitem_missing_label_draws_unmatched_sentence:
  "iloc (df ex_ds) 3 = Inr ex_row_edema_nan
   \<and> ex_open (imgpath ex_row_edema_nan) = Some 5
   \<and> list_ex (\<lambda>l. row_labels ex_row_edema_nan l \<noteq> Val 0) dataset_labels
   \<and> map Reports (pathology_sents ex_ds ex_row_edema_nan) = [''mild edema'']
   \<and> getitem ex_open ex_ds 2 3 = Inr ([[5]], ''heart size normal no edema'')"
proof -
  have "getitem ex_open ex_ds 2 3 = Inr ([[5]], ''heart size normal no edema'')"
    by (simp add: getitem_missing_eq [where image_open = ex_open and ds = ex_ds
          and row = ex_row_edema_nan and pic = 5 and index = 3 and r = 2,
          OF ex_iloc3 ex_open_edema_nan ex_edema_nan_missing]
        ex_sentence_label ex_sample2 ex_reports2 ex_transform ex_report_edema_nan)
  then show ?thesis
    by (simp add: ex_iloc3 ex_open_edema_nan ex_edema_nan_nonzero ex_pathology_edema_nan)
qed

subsection \<open>Rows without a label\<close>

text \<open>
  Claim C2. For a row whose 14 structured labels are all zero, \<open>__getitem__\<close> appends to
  the row's report (the empty string when the report is missing) a sentence drawn only
  from the rows of the sentence frame whose 'No Finding' label is positive, and every such
  row is drawn for some random draw.
\<close>

theorem getitem_unlabelled_row_sampling:
  assumes "iloc (df ds) index = Inr row"
    and "image_open (imgpath row) = Some pic"
    and "list_all (\<lambda>l. row_labels row l = Val 0) dataset_labels"
  shows "(\<forall>r img rep. getitem image_open ds r index = Inr (img, rep) \<longrightarrow>
            img = unsqueeze1 (transform ds pic) \<and>
            (\<exists>s \<in> set (sentence_label ds). sent_labels s ''No Finding'' > 0 \<and>
               rep = (case report row of None \<Rightarrow> '''' | Some t \<Rightarrow> t) @ '' '' @ Reports s))
       \<and> (\<forall>s \<in> set (sentence_label ds). sent_labels s ''No Finding'' > 0 \<longrightarrow>
            (\<exists>r. getitem image_open ds r index =
               Inr (unsqueeze1 (transform ds pic),
                    (case report row of None \<Rightarrow> '''' | Some t \<Rightarrow> t) @ '' '' @ Reports s)))"
proof -
  have eq: "getitem image_open ds r index =
           (case sample r (no_finding_sents ds) of
              Inl e \<Rightarrow> Inl e
            | Inr s \<Rightarrow> Inr (unsqueeze1 (transform ds pic),
                           report_or_empty row @ '' '' @ Reports s))"
    for r
    by (rule getitem_blank_eq [where image_open = image_open and ds = ds and row = row
          and pic = pic and index = index and r = r, OF assms])
  have mem: "s \<in> set (no_finding_sents ds) \<longleftrightarrow>
               s \<in> set (sentence_label ds) \<and> sent_labels s ''No Finding'' > 0" for s
    by (simp add: no_finding_sents_def)
  show ?thesis
  proof (intro conjI allI impI ballI)
    fix r img rep
    assume g: "getitem image_open ds r index = Inr (img, rep)"
    from sampled_report_sound [OF eq g]
    have *: "img = unsqueeze1 (transform ds pic)"
      and **: "\<exists>s \<in> set (no_finding_sents ds). rep = report_or_empty row @ '' '' @ Reports s"
      by simp_all
    from ** obtain s where "s \<in> set (no_finding_sents ds)"
      and "rep = report_or_empty row @ '' '' @ Reports s" ..
    then have "s \<in> set (sentence_label ds) \<and> (sent_labels s ''No Finding'' > 0 \<and>
               rep = (case report row of None \<Rightarrow> '''' | Some t \<Rightarrow> t) @ '' '' @ Reports s)"
      by (simp add: mem report_or_empty_def)
    then show "\<exists>s \<in> set (sentence_label ds). sent_labels s ''No Finding'' > 0 \<and>
               rep = (case report row of None \<Rightarrow> '''' | Some t \<Rightarrow> t) @ '' '' @ Reports s"
      by (intro bexI [of _ s]) simp_all
    from * show "img = unsqueeze1 (transform ds pic)" .
  next
    fix s
    assume "s \<in> set (sentence_label ds)" and "sent_labels s ''No Finding'' > 0"
    then have "s \<in> set (no_finding_sents ds)" by (simp add: mem)
    with eq have "\<exists>r. getitem image_open ds r index =
              Inr (unsqueeze1 (transform ds pic), report_or_empty row @ '' '' @ Reports s)"
      by (rule sampled_report_complete)
    then show "\<exists>r. getitem image_open ds r index =
               Inr (unsqueeze1 (transform ds pic),
                    (case report row of None \<Rightarrow> '''' | Some t \<Rightarrow> t) @ '' '' @ Reports s)"
      by (simp add: report_or_empty_def)
  qed
qed

theorem getitem_unlabelled_row_sampling_witness:
  "iloc (df ex_ds) 1 = Inr ex_row_blank
   \<and> ex_open (imgpath ex_row_blank) = Some 5
   \<and> list_all (\<lambda>l. row_labels ex_row_blank l = Val 0) dataset_labels
   \<and> \<not> (\<exists>r img rep. getitem ex_open ex_ds r 1 = Inr (img, rep) \<and>
         rep \<noteq> '' no acute disease'')
   \<and> (\<exists>r. getitem ex_open ex_ds r 1 = Inr ([[5]], '' no acute disease''))"
  using getitem_unlabelled_row_sampling [where image_open = ex_open and ds = ex_ds and index = 1
      and row = ex_row_blank and pic = 5, OF ex_iloc1 ex_open_blank ex_blank_zero]
  by (simp add: ex_iloc1 ex_open_blank ex_blank_zero ex_transform ex_report_blank
      ex_sentence_label ex_sentences_def)

subsection \<open>When the call returns\<close>

text \<open>
  On a row with a nonzero structured label and a number in each of its 14 label cells,
  \<open>__getitem__\<close> returns a pair exactly when some sentence of the sentence frame has a
  positive product with the row on one of the 14 labels; when there is none, the fallback
  \<open>sample()\<close> runs on a frame without rows and the call raises ValueError.
\<close>

lemma getitem_numeric_row_total_iff:
  assumes "iloc (df ds) index = Inr row"
    and "image_open (imgpath row) = Some pic"
    and "list_ex (\<lambda>l. row_labels row l \<noteq> Val 0) dataset_labels"
    and "numeric_on dataset_labels row"
  shows "((\<exists>y. getitem image_open ds r index = Inr y) \<longleftrightarrow>
            list_ex (positive_on dataset_labels row) (sentence_label ds))
       \<and> (\<not> list_ex (positive_on dataset_labels row) (sentence_label ds) \<longrightarrow>
            getitem image_open ds r index = Inl ValueError)"
proof -
  from assms(3) have nz: "\<not> list_all (\<lambda>l. row_labels row l = Val 0) dataset_labels"
    unfolding list_ex_iff list_all_iff by blast
  have eq: "getitem image_open ds r index =
           (case sample r (sampling_pool ds row) of
              Inl e \<Rightarrow> Inl e
            | Inr s \<Rightarrow> Inr (unsqueeze1 (transform ds pic),
                           report_or_empty row @ '' '' @ Reports s))"
    by (rule getitem_labelled_eq [where image_open = image_open and ds = ds and row = row
          and pic = pic and index = index and r = r, OF assms(1,2) nz assms(4)])
  show ?thesis
  proof (cases "sampling_pool ds row = []")
    case True
    then have "\<not> list_ex (positive_on dataset_labels row) (sentence_label ds)"
      by (simp add: sampling_pool_empty_iff)
    moreover from True have "getitem image_open ds r index = Inl ValueError"
      by (simp add: eq sample_nil)
    ultimately show ?thesis by simp
  next
    case False
    then have ex: "list_ex (positive_on dataset_labels row) (sentence_label ds)"
      by (simp add: sampling_pool_empty_iff)
    from False have "\<exists>s. sample r (sampling_pool ds row) = Inr s"
      by (simp add: sample_Inr_iff)
    then obtain s where "sample r (sampling_pool ds row) = Inr s" ..
    then have "\<exists>y. getitem image_open ds r index = Inr y"
      by (simp add: eq)
    with ex show ?thesis by simp
  qed
qed

lemma getitem_numeric_row_total_iff_example:
  "iloc (df ex_ds) 2 = Inr ex_row_fracture
   \<and> ex_open (imgpath ex_row_fracture) = Some 5
   \<and> list_ex (\<lambda>l. row_labels ex_row_fracture l \<noteq> Val 0) dataset_labels
   \<and> numeric_on dataset_labels ex_row_fracture
   \<and> \<not> list_ex (positive_on dataset_labels ex_row_fracture) (sentence_label ex_ds)
   \<and> getitem ex_open ex_ds 7 2 = Inl ValueError"
  using getitem_numeric_row_total_iff [where image_open = ex_open and ds = ex_ds
      and index = 2 and row = ex_row_fracture and pic = 5 and r = 7,
      OF ex_iloc2 ex_open_fracture ex_fracture_nonzero ex_fracture_numeric]
  by (simp add: ex_iloc2 ex_open_fracture ex_fracture_nonzero ex_fracture_numeric
      ex_no_match_fracture)

text \<open>
  Claim C10 (with a nonzero label and no sentence with a positive product on any of the 14
  labels, the fallback \<open>sample()\<close> runs on a frame without rows and the call raises).
  Row 4 of the example is a row of the metadata file whose Fracture cell is 1 and whose
  'Pleural Other' cell is empty. No sentence has a positive product with it on any of the
  14 labels, yet for the draw 0 \<open>__getitem__\<close> returns a pair, the report followed by 'no
  acute disease', where the claim says it raises: the NaN products keep every sentence
  in the mask of line 71. The metadata frame is read without the \<open>fillna(0)\<close> that line 50
  applies to the sentence frame.
\<close>

theorem getitem_missing_label_returns_without_match:
  "iloc (df ex_ds) 4 = Inr ex_row_fracture_nan
   \<and> ex_open (imgpath ex_row_fracture_nan) = Some 5
   \<and> list_ex (\<lambda>l. row_labels ex_row_fracture_nan l \<noteq> Val 0) dataset_labels
   \<and> \<not> list_ex (positive_on dataset_labels ex_row_fracture_nan) (sentence_label ex_ds)
   \<and> getitem ex_open ex_ds 0 4 = Inr ([[5]], ''rib no acute disease'')"
proof -
  have "getitem ex_open ex_ds 0 4 = Inr ([[5]], ''rib no acute disease'')"
    by (simp add: getitem_missing_eq [where image_open = ex_open and ds = ex_ds
          and row = ex_row_fracture_nan and pic = 5 and index = 4 and r = 0,
          OF ex_iloc4 ex_open_fracture_nan ex_fracture_nan_missing]
        ex_sentence_label ex_sample0 ex_reports0 ex_transform ex_report_fracture_nan)
  then show ?thesis
    by (simp add: ex_iloc4 ex_open_fracture_nan ex_fracture_nan_nonzero
        ex_no_match_fracture_nan)
qed


section \<open>Properties of batching, the loss wrapper and the warm-up\<close>

lemma collect_batch_foldl:
  "foldl (\<lambda>(pixel_list, report_list) data. (pixel_list @ [fst data], report_list @ [snd data]))
     (ps, rs) batch = (ps @ map fst batch, rs @ map snd batch)"
  by (induction batch arbitrary: ps rs) simp_all

lemma collect_batch_eq: "collect_batch batch = (map fst batch, map snd batch)"
  by (simp add: collect_batch_def collect_batch_foldl)

lemma collate_fn_eq:
  "batch \<noteq> [] \<Longrightarrow>
   collate_fn tokenizer batch =
     Inr [(''pixel_values'', Pixels (concat (map fst batch))),
          (''input_ids'', Tokens (input_ids (tokenizer (map snd batch)))),
          (''attention_mask'', Tokens (attention_mask (tokenizer (map snd batch))))]"
  by (simp add: collate_fn_def collect_batch_eq torch_cat_def Let_def)

lemma collate_fn_empty: "collate_fn tokenizer [] = Inl RuntimeError"
  by (simp add: collate_fn_def collect_batch_eq torch_cat_def)

lemma single_slice_rows:
  "list_all (\<lambda>data. length (fst data) = 1) batch \<Longrightarrow>
   length (concat (map fst batch)) = length batch
   \<and> list_all2 (\<lambda>row data. fst data = [row]) (concat (map fst batch)) batch"
proof (induction batch)
  case Nil
  then show ?case by simp
next
  case (Cons d batch)
  then obtain x where "fst d = [x]"
    by (cases "fst d") auto
  with Cons show ?case by simp
qed

text \<open>
  Claim C6, as amended. \<open>collate_fn\<close> stacks the pictures with \<open>torch.cat\<close> along
  dimension 0, in batch order. For every batch that is not empty and whose pictures each
  have exactly one slice along dimension 0 (what \<open>__getitem__\<close> returns for a
  single-channel picture), the returned mapping has exactly the keys \<open>pixel_values\<close>,
  \<open>input_ids\<close> and \<open>attention_mask\<close>, row \<open>i\<close> of \<open>pixel_values\<close> is the picture of
  item \<open>i\<close>, and the two text entries are the tokenizer's rows for the reports in batch
  order.
\<close>

theorem collate_fn_pairing_single_slice:
  assumes "batch \<noteq> []"
    and "list_all (\<lambda>data. length (fst data) = 1) batch"
  shows "collate_fn tokenizer batch =
           Inr [(''pixel_values'', Pixels (concat (map fst batch))),
                (''input_ids'', Tokens (input_ids (tokenizer (map snd batch)))),
                (''attention_mask'', Tokens (attention_mask (tokenizer (map snd batch))))]
         \<and> pairing_preserved tokenizer batch"
  using assms(1) single_slice_rows [OF assms(2)]
  by (simp add: collate_fn_eq pairing_preserved_def rows_match_def)

theorem collate_fn_pairing_single_slice_witness:
  "ex_batch_gray \<noteq> []
   \<and> list_all (\<lambda>data. length (fst data) = 1) ex_batch_gray
   \<and> collate_fn ex_tokenizer ex_batch_gray =
        Inr [(''pixel_values'', Pixels [[1], [2]]),
             (''input_ids'', Tokens [[1], [2]]),
             (''attention_mask'', Tokens [[1], [1]])]
   \<and> pairing_preserved ex_tokenizer ex_batch_gray"
  using collate_fn_pairing_single_slice [of ex_batch_gray ex_tokenizer]
  by (simp add: ex_batch_gray_def ex_tokenizer_def)

text \<open>
  Claim C6 as stated (for every batch) fails: with a first picture of two slices along
  dimension 0 the stack has three rows for two items, and row 1 is the second slice of
  item 0, not the picture of item 1.
\<close>

theorem collate_fn_pairing_counterexample:
  "\<not> pairing_preserved ex_tokenizer ex_batch_two_slices"
  by (simp add: pairing_preserved_def collate_fn_def collect_batch_def torch_cat_def
      rows_match_def ex_batch_two_slices_def Let_def)

text \<open>
  Claim C7. \<open>ImageTextContrastiveLoss.forward\<close> computes nothing of its own: when the
  wrapped model, called with the same \<open>input_ids\<close>, \<open>pixel_values\<close> and
  \<open>attention_mask\<close> and \<open>return_loss=True\<close>, returns a mapping with a \<open>'loss_value'\<close>
  entry, \<open>forward\<close> returns the mapping with the single key \<open>'loss_value'\<close> and that
  value, whatever further keyword arguments it is given.
\<close>

theorem forward_returns_model_loss:
  assumes "model inp_ids pixel_values attn_mask True = Inr outputs"
    and "outputs ''loss_value'' = Some loss_value"
  shows "forward model inp_ids pixel_values attn_mask kwargs = Inr [(''loss_value'', loss_value)]"
  using assms by (simp add: forward_def)

theorem forward_returns_model_loss_witness:
  "ex_model 1 2 3 True = Inr [''logits'' \<mapsto> 3, ''loss_value'' \<mapsto> 6]
   \<and> [''logits'' \<mapsto> 3, ''loss_value'' \<mapsto> (6::int)] ''loss_value'' = Some 6
   \<and> forward ex_model 1 2 3 () = Inr [(''loss_value'', 6)]"
  using forward_returns_model_loss [of ex_model 1 2 3 "[''logits'' \<mapsto> 3, ''loss_value'' \<mapsto> 6]" 6 "()"]
  by (simp add: ex_model_def)

lemma ceiling_hundredth: "nat \<lceil>(of_nat m :: rat) * (1 / 100)\<rceil> = (m + 99) div 100"
proof -
  have "\<lceil>(of_nat m :: rat) * (1 / 100)\<rceil> = \<lceil>(of_int (int m) :: rat) / of_int 100\<rceil>"
    by simp
  also have "\<dots> = - (- int m div 100)"
    by (rule ceiling_divide_eq_div)
  finally have "\<lceil>(of_nat m :: rat) * (1 / 100)\<rceil> = - (- int m div 100)" .
  moreover have "nat (- (- int m div 100)) = (m + 99) div 100"
    by linarith
  ultimately show ?thesis by simp
qed

text \<open>
  Claim C9. The warm-up steps passed to the trainer are
  \<open>ceil(dataset_length * 3 * 0.01)\<close>, that is \<open>(3 * dataset_length + 99) div 100\<close>: 1% of
  the training examples of the 3 epochs. With dataset_length / 128 optimizer steps per
  epoch, the quantity under the ceiling is batch_size = 128 times the first 1% of the
  training steps that the configuration comment describes.
\<close>

theorem warmup_steps_counts_examples_not_steps:
  "warmup_steps n = nat \<lceil>(of_nat (n * 3) :: rat) * (1 / 100)\<rceil>
   \<and> warmup_steps n = (3 * n + 99) div 100
   \<and> (of_nat (n * 3) :: rat) * (1 / 100) = 128 * one_percent_of_training_steps n
   \<and> warmup_steps n = nat \<lceil>128 * one_percent_of_training_steps n\<rceil>"
proof -
  have a: "warmup_steps n = nat \<lceil>(of_nat (n * 3) :: rat) * (1 / 100)\<rceil>"
    by (simp add: warmup_steps_def pretrain_config_def)
  have b: "(of_nat (n * 3) :: rat) * (1 / 100) = 128 * one_percent_of_training_steps n"
    by (simp add: one_percent_of_training_steps_def steps_per_epoch_def pretrain_config_def)
  from a have c: "warmup_steps n = (3 * n + 99) div 100"
    by (simp only: ceiling_hundredth mult.commute)
  from a b have d: "warmup_steps n = nat \<lceil>128 * one_percent_of_training_steps n\<rceil>"
    by simp
  from a b c d show ?thesis by simp
qed


section \<open>Properties of the two evaluation scripts\<close>

lemma optimizer_step_names: "map fst (optimizer_step step ps) = map fst ps"
  by (induction ps) (auto simp: optimizer_step_def)

lemma train_names: "map fst (train steps n ps) = map fst ps"
  by (induction n) (simp_all add: optimizer_step_names)

lemma freeze_backbone_names: "map fst (freeze_backbone ps) = map fst ps"
  by (induction ps) (auto simp: freeze_backbone_def)

lemma freeze_backbone_frozen:
  "head_only_trainable (freeze_backbone ps)"
  by (induction ps) (auto simp: freeze_backbone_def head_only_trainable_def split: if_splits)

lemma freeze_backbone_values: "backbone_values (freeze_backbone ps) = backbone_values ps"
  by (induction ps) (auto simp: freeze_backbone_def backbone_values_def split: if_splits)

lemma optimizer_step_frozen:
  "head_only_trainable ps \<Longrightarrow>
   head_only_trainable (optimizer_step step ps)
   \<and> backbone_values (optimizer_step step ps) = backbone_values ps"
  by (induction ps) (auto simp: optimizer_step_def backbone_values_def head_only_trainable_def split: if_splits)

lemma train_frozen:
  "head_only_trainable ps \<Longrightarrow>
   head_only_trainable (train steps n ps)
   \<and> backbone_values (train steps n ps) = backbone_values ps"
proof (induction n)
  case 0
  then show ?case by simp
next
  case (Suc n)
  then have inv: "head_only_trainable (train steps n ps)"
    and vals: "backbone_values (train steps n ps) = backbone_values ps"
    by simp_all
  from optimizer_step_frozen [OF inv, of "steps n"] vals show ?case by simp
qed

text \<open>
  Claim C3. After the freezing loop of the linear-probe script every parameter of the
  classifier whose name is not \<open>'fc.weight'\<close> or \<open>'fc.bias'\<close> has
  \<open>requires_grad = False\<close>, the names of the parameters are as they were, and after any
  number of optimisation steps of the trainer the invariant still holds and every
  parameter outside the classification head has the value it had before the loop: only
  the head is trained.
\<close>

theorem freeze_backbone_keeps_backbone:
  "head_only_trainable (freeze_backbone ps)
   \<and> map fst (freeze_backbone ps) = map fst ps
   \<and> map fst (train steps n (freeze_backbone ps)) = map fst ps
   \<and> head_only_trainable (train steps n (freeze_backbone ps))
   \<and> backbone_values (train steps n (freeze_backbone ps)) = backbone_values ps"
  using train_frozen [OF freeze_backbone_frozen, of steps n ps]
  by (simp add: freeze_backbone_frozen freeze_backbone_names train_names freeze_backbone_values)

theorem freeze_backbone_keeps_backbone_witness:
  "train ex_updates 3 (freeze_backbone ex_clf_parameters) =
     [(''model.conv1.weight'', \<lparr>data = 7, requires_grad = False\<rparr>),
      (''model.layer1.bias'', \<lparr>data = 8, requires_grad = False\<rparr>),
      (''fc.weight'', \<lparr>data = 31, requires_grad = True\<rparr>),
      (''fc.bias'', \<lparr>data = 32, requires_grad = True\<rparr>)]
   \<and> backbone_values (train ex_updates 3 (freeze_backbone ex_clf_parameters)) =
        [(''model.conv1.weight'', 7), (''model.layer1.bias'', 8)]"
proof -
  have "train ex_updates 3 (freeze_backbone ex_clf_parameters) =
     [(''model.conv1.weight'', \<lparr>data = 7, requires_grad = False\<rparr>),
      (''model.layer1.bias'', \<lparr>data = 8, requires_grad = False\<rparr>),
      (''fc.weight'', \<lparr>data = 31, requires_grad = True\<rparr>),
      (''fc.bias'', \<lparr>data = 32, requires_grad = True\<rparr>)]"
    by (simp add: numeral_3_eq_3 freeze_backbone_def optimizer_step_def ex_clf_parameters_def
        ex_updates_def)
  moreover have "backbone_values ex_clf_parameters =
        [(''model.conv1.weight'', 7), (''model.layer1.bias'', 8)]"
    by (simp add: backbone_values_def ex_clf_parameters_def)
  ultimately show ?thesis
    using freeze_backbone_keeps_backbone [of ex_clf_parameters ex_updates 3]
    by simp
qed

text \<open>
  Claim C8. For a dataset name outside the names the script recognizes, the zero-shot
  script raises NotImplementedError at its task dispatch, having built nothing for the
  task (only the pretrained model, which is loaded before the dispatch), and the
  linear-probe script raises NotImplementedError having built nothing at all.
\<close>

theorem unrecognized_dataname_raises:
  "(dataname \<notin> set zeroshot_datanames \<longrightarrow>
      snd (zeroshot_main env dataname) = Inl NotImplementedError
      \<and> filter task_specific (fst (zeroshot_main env dataname)) = [])
   \<and> (dataname \<notin> set probe_datanames \<longrightarrow>
        probe_main penv dataname = ([], Inl NotImplementedError))"
proof (intro conjI impI)
  assume "dataname \<notin> set zeroshot_datanames"
  then have "zeroshot_dispatch dataname = Inl NotImplementedError"
    by (simp add: zeroshot_dispatch_def zeroshot_datanames_def)
  then show "snd (zeroshot_main env dataname) = Inl NotImplementedError"
    and "filter task_specific (fst (zeroshot_main env dataname)) = []"
    by (simp_all add: zeroshot_main_def)
next
  assume "dataname \<notin> set probe_datanames"
  then have "probe_dispatch dataname = Inl NotImplementedError"
    by (simp add: probe_dispatch_def probe_datanames_def)
  then show "probe_main penv dataname = ([], Inl NotImplementedError)"
    by (simp add: probe_main_def)
qed

theorem unrecognized_dataname_raises_witness:
  "''covid'' \<notin> set zeroshot_datanames
   \<and> zeroshot_main ex_env ''covid'' = ([LoadMedClipModel True], Inl NotImplementedError)
   \<and> ''covid-test'' \<notin> set probe_datanames
   \<and> probe_main ex_probe_env ''covid-test'' = ([], Inl NotImplementedError)"
proof -
  have a: "''covid'' \<notin> set zeroshot_datanames"
    by (simp add: zeroshot_datanames_def)
  have b: "''covid-test'' \<notin> set probe_datanames"
    by (simp add: probe_datanames_def)
  have c: "fst (zeroshot_main ex_env ''covid'') = [LoadMedClipModel True]"
    by (simp add: zeroshot_main_def zeroshot_dispatch_def zeroshot_vit_def)
  from unrecognized_dataname_raises [of "''covid''" ex_env ex_probe_env] a
  have "snd (zeroshot_main ex_env ''covid'') = Inl NotImplementedError" by simp
  with c have d: "zeroshot_main ex_env ''covid'' = ([LoadMedClipModel True], Inl NotImplementedError)"
    by (simp add: prod_eq_iff)
  from unrecognized_dataname_raises [of "''covid-test''" ex_env ex_probe_env] b
  have e: "probe_main ex_probe_env ''covid-test'' = ([], Inl NotImplementedError)" by simp
  from a b d e show ?thesis by simp
qed


section \<open>Properties of the metric aggregation\<close>

lemma append_metric_keys:
  "set (map fst (append_metric key v ml)) = insert key (set (map fst ml))"
  by (auto simp: append_metric_def split: if_splits prod.splits) force+

lemma map_fst_update:
  "map fst (map (\<lambda>(k, vs). if k = key then (k, vs @ [v]) else (k, vs)) ml) = map fst ml"
  by (induction ml) auto

lemma append_metric_distinct:
  "distinct (map fst ml) \<Longrightarrow> distinct (map fst (append_metric key v ml))"
  by (simp add: append_metric_def map_fst_update del: map_map)

lemma map_of_update:
  "map_of (map (\<lambda>(k, vs). if k = key then (k, vs @ [v]) else (k, vs)) ml) k' =
     (if k' = key then map_option (\<lambda>vs. vs @ [v]) (map_of ml k') else map_of ml k')"
  by (induction ml) auto

lemma values_of_append_metric:
  "values_of (append_metric key v ml) k =
     (if k = key then values_of ml k @ [v] else values_of ml k)"
proof (cases "key \<in> set (map fst ml)")
  case True
  then obtain vs where "map_of ml key = Some vs"
    by (metis weak_map_of_SomeI map_of_eq_None_iff not_None_eq set_map)
  with True show ?thesis
    by (simp add: append_metric_def values_of_def map_of_update)
next
  case False
  then have "map_of ml key = None"
    by (simp add: map_of_eq_None_iff)
  with False show ?thesis
    by (auto simp: append_metric_def values_of_def map_add_def split: option.splits)
qed


lemma collect_metrics_Nil: "collect_metrics [] ml = ml"
  by (simp add: collect_metrics_def)

lemma collect_metrics_Cons:
  "collect_metrics ((key, v) # res) ml =
     collect_metrics res
       (if key \<notin> set [''pred'', ''labels''] then append_metric key v ml else ml)"
  by (simp add: collect_metrics_def)

lemma values_of_collect_metrics:
  "values_of (collect_metrics res ml) k =
     values_of ml k @ (if k \<in> set [''pred'', ''labels''] then [] else entries_of res k)"
proof (induction res arbitrary: ml)
  case Nil
  then show ?case by (simp add: collect_metrics_Nil entries_of_def)
next
  case (Cons kv res)
  obtain key v where kv: "kv = (key, v)" by (cases kv)
  show ?case
    unfolding kv collect_metrics_Cons Cons.IH
    by (auto simp: values_of_append_metric entries_of_def)
qed

lemma keys_collect_metrics:
  "set (map fst (collect_metrics res ml)) \<subseteq>
     set (map fst ml) \<union> (set (map fst res) - set [''pred'', ''labels''])"
proof (induction res arbitrary: ml)
  case Nil
  then show ?case by (simp add: collect_metrics_Nil)
next
  case (Cons kv res)
  obtain key v where kv: "kv = (key, v)" by (cases kv)
  have "set (map fst (collect_metrics (kv # res) ml)) \<subseteq>
          set (map fst (if key \<notin> set [''pred'', ''labels''] then append_metric key v ml else ml))
          \<union> (set (map fst res) - set [''pred'', ''labels''])"
    unfolding kv collect_metrics_Cons by (rule Cons.IH)
  also have "\<dots> \<subseteq> set (map fst ml) \<union> (set (map fst (kv # res)) - set [''pred'', ''labels''])"
    unfolding kv by (auto simp: append_metric_keys simp del: set_map)
  finally show ?case .
qed

section \<open>Properties of the run loop\<close>

lemma build_evaluator_no_evaluate:
  assumes "build_evaluator env dataname tsk i = Inr built"
  shows "filter (\<lambda>e. e = Evaluate) built = []"
proof -
  define a where "a = (dataname \<in> set [''chexpert-5x200'', ''mimic-5x200''])"
  define b where "b = (dataname \<in> set [''covid-test'', ''covid-2x200-test''])"
  define c where "c = (dataname \<in> set [''rsna-balanced-test'', ''rsna-2x200-test''])"
  from assms have
    "(if a then
        (if chexpert_prompt_keys env i = task_names env tsk
         then Inr [BuildDataLoader 128, BuildPromptClassifier ensemble, BuildEvaluator ''multiclass'']
         else Inl AssertionError)
      else if b then
        (case assert_second_key
                (dict_update_keys (sentence_prompt_keys env i) (covid_prompt_keys env i))
                (task_names env tsk) of
           Inl e \<Rightarrow> Inl e
         | Inr u \<Rightarrow>
             Inr [BuildDataLoader 128, BuildPromptClassifier ensemble, BuildEvaluator ''binary''])
      else if c then
        (case assert_second_key
                (dict_update_keys (sentence_prompt_keys env i) (rsna_prompt_keys env i))
                (task_names env tsk) of
           Inl e \<Rightarrow> Inl e
         | Inr u \<Rightarrow>
             Inr [BuildDataLoader 128, BuildPromptClassifier ensemble, BuildEvaluator ''binary''])
      else Inl NotImplementedError) = Inr built"
    unfolding build_evaluator_def a_def b_def c_def .
  then have "built = [BuildDataLoader 128, BuildPromptClassifier ensemble, BuildEvaluator ''multiclass'']
     \<or> built = [BuildDataLoader 128, BuildPromptClassifier ensemble, BuildEvaluator ''binary'']"
    by (auto split: if_splits sum.splits)
  then show ?thesis
    by (elim disjE) simp_all
qed

lemma runs_ok:
  assumes "\<forall>i \<in> set js. \<exists>built. build_evaluator env dataname tsk i = Inr built"
  shows "\<exists>st'. runs env dataname tsk js st = Inr st'
           \<and> metrc_list st' = fold (\<lambda>i. collect_metrics (evaluate env i)) js (metrc_list st)
           \<and> length (filter (\<lambda>e. e = Evaluate) (trace st')) =
               length (filter (\<lambda>e. e = Evaluate) (trace st)) + length js"
  using assms
proof (induction js arbitrary: st)
  case Nil
  then show ?case by simp
next
  case (Cons i js)
  then obtain built where b: "build_evaluator env dataname tsk i = Inr built"
    by auto
  define st1 where "st1 = \<lparr>trace = trace st @ built @ [Evaluate],
               metrc_list = collect_metrics (evaluate env i) (metrc_list st)\<rparr>"
  have r: "run_once env dataname tsk i st = Inr st1"
    by (simp add: run_once_def b st1_def)
  from Cons.prems have "\<forall>i \<in> set js. \<exists>built. build_evaluator env dataname tsk i = Inr built"
    by simp
  from Cons.IH [OF this, of st1] obtain st' where
    "runs env dataname tsk js st1 = Inr st'"
    "metrc_list st' = fold (\<lambda>i. collect_metrics (evaluate env i)) js (metrc_list st1)"
    "length (filter (\<lambda>e. e = Evaluate) (trace st')) =
       length (filter (\<lambda>e. e = Evaluate) (trace st1)) + length js"
    by auto
  with r build_evaluator_no_evaluate [OF b] show ?case
    by (simp add: st1_def)
qed

lemma values_of_fold:
  "k \<notin> set [''pred'', ''labels''] \<Longrightarrow>
   values_of (fold (\<lambda>i. collect_metrics (evaluate env i)) js ml) k =
     values_of ml k @ concat (map (\<lambda>i. entries_of (evaluate env i) k) js)"
  by (induction js arbitrary: ml) (simp_all add: values_of_collect_metrics)

lemma keys_fold:
  "set (map fst (fold (\<lambda>i. collect_metrics (evaluate env i)) js ml)) \<inter> set [''pred'', ''labels'']
     \<subseteq> set (map fst ml)"
proof (induction js arbitrary: ml)
  case Nil
  then show ?case by simp
next
  case (Cons i js)
  have "set (map fst (fold (\<lambda>i. collect_metrics (evaluate env i)) (i # js) ml))
          \<inter> set [''pred'', ''labels'']
        \<subseteq> set (map fst (collect_metrics (evaluate env i) ml))"
    using Cons.IH [of "collect_metrics (evaluate env i) ml"] by simp
  moreover have "set (map fst (collect_metrics (evaluate env i) ml)) \<inter> set [''pred'', ''labels'']
        \<subseteq> set (map fst ml)"
    using keys_collect_metrics [of "evaluate env i" ml] by auto
  ultimately show ?case by auto
qed

lemma distinct_collect_metrics:
  "distinct (map fst ml) \<Longrightarrow> distinct (map fst (collect_metrics res ml))"
proof (induction res arbitrary: ml)
  case Nil
  then show ?case by (simp add: collect_metrics_Nil)
next
  case (Cons kv res)
  obtain key v where kv: "kv = (key, v)" by (cases kv)
  from Cons.prems
  have "distinct (map fst (if key \<notin> set [''pred'', ''labels''] then append_metric key v ml else ml))"
    by (simp add: append_metric_distinct del: map_map)
  then show ?case
    unfolding kv collect_metrics_Cons by (rule Cons.IH)
qed

lemma distinct_fold:
  "distinct (map fst ml) \<Longrightarrow>
   distinct (map fst (fold (\<lambda>i. collect_metrics (evaluate env i)) js ml))"
  by (induction js arbitrary: ml) (simp_all add: distinct_collect_metrics)

lemma values_of_Some: "values_of ml k = v # vs \<Longrightarrow> map_of ml k = Some (v # vs)"
  by (simp add: values_of_def split: option.splits)

lemma map_of_report:
  "map_of (map (\<lambda>(key, value). (key, f value, g value)) ml) k =
     map_option (\<lambda>value. (f value, g value)) (map_of ml k)"
  by (induction ml) auto

lemma map_fst_report: "map fst (map (\<lambda>(key, value). (key, f value, g value)) ml) = map fst ml"
  by (induction ml) auto

lemma upt_5: "[0..<5] = [0, 1, 2, 3, 4]"
  by (simp add: upt_rec)

lemma np_mean_5:
  "np_mean [Scalar a, Scalar b, Scalar c, Scalar d, Scalar e] = (a + b + c + d + e) / 5"
  by (simp add: np_mean_def)

lemma np_std_5:
  "np_std [Scalar a, Scalar b, Scalar c, Scalar d, Scalar e] =
     sqrt (((a - (a + b + c + d + e) / 5)\<^sup>2 + (b - (a + b + c + d + e) / 5)\<^sup>2
            + (c - (a + b + c + d + e) / 5)\<^sup>2 + (d - (a + b + c + d + e) / 5)\<^sup>2
            + (e - (a + b + c + d + e) / 5)\<^sup>2) / 5)"
  by (simp add: np_std_def Let_def add.assoc)

subsection \<open>The example environment, evaluated\<close>

lemma ex_dispatch_rsna: "zeroshot_dispatch ''rsna-2x200-test'' = Inr RSNA_TASKS"
  by (simp add: zeroshot_dispatch_def)

lemma ex_build_rsna:
  "build_evaluator ex_env ''rsna-2x200-test'' RSNA_TASKS i =
     Inr [BuildDataLoader 128, BuildPromptClassifier ensemble, BuildEvaluator ''binary'']"
  by (simp add: build_evaluator_def ex_env_def assert_second_key_def index1_def
      dict_update_keys_def)

lemma ex_entries_acc: "entries_of (evaluate ex_env i) ''acc'' = [Scalar (real i)]"
  by (simp add: entries_of_def ex_env_def)

lemma ex_mean: "(real 0 + real 1 + real 2 + real 3 + real 4) / 5 = 2"
  by simp

lemma ex_std:
  "sqrt (((real 0 - 2)\<^sup>2 + (real 1 - 2)\<^sup>2 + (real 2 - 2)\<^sup>2 + (real 3 - 2)\<^sup>2
          + (real 4 - 2)\<^sup>2) / 5) = sqrt 2"
  by simp

subsection \<open>Five runs and their aggregation\<close>

text \<open>
  Claim C5. When the dataset name is recognized and the assertion on the prompt keys
  passes in each of the \<open>n_runs = 5\<close> runs, the script evaluates exactly five times. For a
  key other than 'pred' and 'labels' under which every run's result holds one number,
  the list collected in \<open>metrc_list\<close> is these five numbers in the order of the runs, and
  the final report has one line for the key, with their arithmetic mean and their
  population standard deviation (the square root of the mean squared deviation from the
  mean, divisor 5). 'pred' and 'labels' are never keys of \<open>metrc_list\<close> and have no line
  in the report.
\<close>

theorem zeroshot_five_runs_mean_std:
  assumes "zeroshot_dispatch dataname = Inr tsk"
    and "\<forall>i < n_runs. \<exists>built. build_evaluator env dataname tsk i = Inr built"
    and "key \<notin> set [''pred'', ''labels'']"
    and "\<forall>i < n_runs. entries_of (evaluate env i) key = [Scalar (x i)]"
  shows "\<exists>st. runs env dataname tsk [0..<n_runs]
                \<lparr>trace = [LoadMedClipModel zeroshot_vit, BuildDataset dataname tsk],
                 metrc_list = []\<rparr> = Inr st
           \<and> length (filter (\<lambda>e. e = Evaluate) (trace st)) = 5
           \<and> values_of (metrc_list st) key = [Scalar (x 0), Scalar (x 1), Scalar (x 2), Scalar (x 3), Scalar (x 4)]
           \<and> ''pred'' \<notin> set (map fst (metrc_list st))
           \<and> ''labels'' \<notin> set (map fst (metrc_list st))
           \<and> (\<exists>report. zeroshot_main env dataname = (trace st, Inr report)
                 \<and> map fst report = map fst (metrc_list st)
                 \<and> distinct (map fst report)
                 \<and> map_of report key =
                     Some ((x 0 + x 1 + x 2 + x 3 + x 4) / 5,
                           sqrt (((x 0 - (x 0 + x 1 + x 2 + x 3 + x 4) / 5)\<^sup>2
                                + (x 1 - (x 0 + x 1 + x 2 + x 3 + x 4) / 5)\<^sup>2
                                + (x 2 - (x 0 + x 1 + x 2 + x 3 + x 4) / 5)\<^sup>2
                                + (x 3 - (x 0 + x 1 + x 2 + x 3 + x 4) / 5)\<^sup>2
                                + (x 4 - (x 0 + x 1 + x 2 + x 3 + x 4) / 5)\<^sup>2) / 5)))"
proof -
  let ?st0 = "\<lparr>trace = [LoadMedClipModel zeroshot_vit, BuildDataset dataname tsk],
               metrc_list = []\<rparr>"
  let ?vs = "[Scalar (x 0), Scalar (x 1), Scalar (x 2), Scalar (x 3), Scalar (x 4)]"
  from assms(2) have "\<forall>i \<in> set [0..<n_runs]. \<exists>built. build_evaluator env dataname tsk i = Inr built"
    by simp
  from runs_ok [OF this, of ?st0] obtain st where
    r: "runs env dataname tsk [0..<n_runs] ?st0 = Inr st"
    and ml: "metrc_list st = fold (\<lambda>i. collect_metrics (evaluate env i)) [0..<n_runs] []"
    and ev: "length (filter (\<lambda>e. e = Evaluate) (trace st)) =
               length (filter (\<lambda>e. e = Evaluate) (trace ?st0)) + length [0..<n_runs]"
    by auto
  from ev have five: "length (filter (\<lambda>e. e = Evaluate) (trace st)) = 5"
    by (simp add: n_runs_def)
  from assms(4) have e: "entries_of (evaluate env 0) key = [Scalar (x 0)]"
    "entries_of (evaluate env 1) key = [Scalar (x 1)]"
    "entries_of (evaluate env 2) key = [Scalar (x 2)]"
    "entries_of (evaluate env 3) key = [Scalar (x 3)]"
    "entries_of (evaluate env 4) key = [Scalar (x 4)]"
    by (simp_all add: n_runs_def)
  have v1: "values_of (metrc_list st) key =
          values_of [] key @ concat (map (\<lambda>i. entries_of (evaluate env i) key) [0..<n_runs])"
    unfolding ml by (rule values_of_fold [OF assms(3)])
  have v2: "concat (map (\<lambda>i. entries_of (evaluate env i) key) [0, 1, 2, 3, 4]) = ?vs"
    using e by simp
  have v3: "values_of [] key = []"
    by (simp add: values_of_def)
  have vs: "values_of (metrc_list st) key = ?vs"
    by (simp only: v1 n_runs_def upt_5 v2 v3 append_Nil)
  have "set (map fst (metrc_list st)) \<inter> set [''pred'', ''labels'']
          \<subseteq> set (map fst ([] :: (string \<times> res_value list) list))"
    unfolding ml by (rule keys_fold)
  then have nk: "''pred'' \<notin> set (map fst (metrc_list st))"
    "''labels'' \<notin> set (map fst (metrc_list st))"
    by auto
  have dist: "distinct (map fst (metrc_list st))"
    unfolding ml by (rule distinct_fold) simp
  let ?report = "map (\<lambda>(key, value). (key, np_mean value, np_std value)) (metrc_list st)"
  have m: "zeroshot_main env dataname = (trace st, Inr ?report)"
    by (simp add: zeroshot_main_def assms(1) r)
  have keys: "map fst ?report = map fst (metrc_list st)"
    by (rule map_fst_report)
  from vs have "map_of (metrc_list st) key = Some ?vs"
    by (rule values_of_Some)
  then have "map_of ?report key = Some (np_mean ?vs, np_std ?vs)"
    by (simp add: map_of_report)
  then have line: "map_of ?report key =
                     Some ((x 0 + x 1 + x 2 + x 3 + x 4) / 5,
                           sqrt (((x 0 - (x 0 + x 1 + x 2 + x 3 + x 4) / 5)\<^sup>2
                                + (x 1 - (x 0 + x 1 + x 2 + x 3 + x 4) / 5)\<^sup>2
                                + (x 2 - (x 0 + x 1 + x 2 + x 3 + x 4) / 5)\<^sup>2
                                + (x 3 - (x 0 + x 1 + x 2 + x 3 + x 4) / 5)\<^sup>2
                                + (x 4 - (x 0 + x 1 + x 2 + x 3 + x 4) / 5)\<^sup>2) / 5))"
    by (simp only: np_mean_5 np_std_5)
  from dist have dr: "distinct (map fst ?report)"
    by (simp only: keys)
  from m keys dr line have "\<exists>report. zeroshot_main env dataname = (trace st, Inr report)
                 \<and> map fst report = map fst (metrc_list st)
                 \<and> distinct (map fst report)
                 \<and> map_of report key =
                     Some ((x 0 + x 1 + x 2 + x 3 + x 4) / 5,
                           sqrt (((x 0 - (x 0 + x 1 + x 2 + x 3 + x 4) / 5)\<^sup>2
                                + (x 1 - (x 0 + x 1 + x 2 + x 3 + x 4) / 5)\<^sup>2
                                + (x 2 - (x 0 + x 1 + x 2 + x 3 + x 4) / 5)\<^sup>2
                                + (x 3 - (x 0 + x 1 + x 2 + x 3 + x 4) / 5)\<^sup>2
                                + (x 4 - (x 0 + x 1 + x 2 + x 3 + x 4) / 5)\<^sup>2) / 5))"
    by (intro exI [of _ ?report] conjI)
  with r five vs nk show ?thesis
    by (intro exI [of _ st] conjI)
qed

theorem zeroshot_five_runs_mean_std_witness:
  "zeroshot_dispatch ''rsna-2x200-test'' = Inr RSNA_TASKS
   \<and> (\<forall>i. \<exists>built. build_evaluator ex_env ''rsna-2x200-test'' RSNA_TASKS i = Inr built)
   \<and> ''acc'' \<notin> set [''pred'', ''labels'']
   \<and> (\<forall>i. entries_of (evaluate ex_env i) ''acc'' = [Scalar (real i)])
   \<and> (\<exists>tr report. zeroshot_main ex_env ''rsna-2x200-test'' = (tr, Inr report)
         \<and> length (filter (\<lambda>e. e = Evaluate) tr) = 5
         \<and> map_of report ''acc'' = Some (2, sqrt 2)
         \<and> ''pred'' \<notin> set (map fst report)
         \<and> ''labels'' \<notin> set (map fst report))"
proof -
  have c: "''acc'' \<notin> set [''pred'', ''labels'']"
    by simp
  have b: "\<forall>i < n_runs. \<exists>built. build_evaluator ex_env ''rsna-2x200-test'' RSNA_TASKS i = Inr built"
    by (simp add: ex_build_rsna)
  have d: "\<forall>i < n_runs. entries_of (evaluate ex_env i) ''acc'' = [Scalar (real i)]"
    by (simp add: ex_entries_acc)
  from zeroshot_five_runs_mean_std [where dataname = "''rsna-2x200-test''" and tsk = RSNA_TASKS
      and env = ex_env and key = "''acc''" and x = real, OF ex_dispatch_rsna b c d]
  obtain st :: zeroshot_state and report where
    five: "length (filter (\<lambda>e. e = Evaluate) (trace st)) = 5"
    and np: "''pred'' \<notin> set (map fst (metrc_list st))"
    and nl: "''labels'' \<notin> set (map fst (metrc_list st))"
    and m: "zeroshot_main ex_env ''rsna-2x200-test'' = (trace st, Inr report)"
    and keys: "map fst report = map fst (metrc_list st)"
    and line: "map_of report ''acc'' =
                 Some ((real 0 + real 1 + real 2 + real 3 + real 4) / 5,
                       sqrt (((real 0 - (real 0 + real 1 + real 2 + real 3 + real 4) / 5)\<^sup>2
                            + (real 1 - (real 0 + real 1 + real 2 + real 3 + real 4) / 5)\<^sup>2
                            + (real 2 - (real 0 + real 1 + real 2 + real 3 + real 4) / 5)\<^sup>2
                            + (real 3 - (real 0 + real 1 + real 2 + real 3 + real 4) / 5)\<^sup>2
                            + (real 4 - (real 0 + real 1 + real 2 + real 3 + real 4) / 5)\<^sup>2) / 5))"
    by (elim exE conjE) blast
  from line have line': "map_of report ''acc'' = Some (2, sqrt 2)"
    by (simp only: ex_mean ex_std)
  from np have np': "''pred'' \<notin> set (map fst report)"
    unfolding keys .
  from nl have nl': "''labels'' \<notin> set (map fst report)"
    unfolding keys .
  from m five line' np' nl' have e: "\<exists>tr report. zeroshot_main ex_env ''rsna-2x200-test'' = (tr, Inr report)
         \<and> length (filter (\<lambda>e. e = Evaluate) tr) = 5
         \<and> map_of report ''acc'' = Some (2, sqrt 2)
         \<and> ''pred'' \<notin> set (map fst report)
         \<and> ''labels'' \<notin> set (map fst report)"
    by (intro exI [of _ "trace st"] exI [of _ report] conjI)
  have b': "\<forall>i. \<exists>built. build_evaluator ex_env ''rsna-2x200-test'' RSNA_TASKS i = Inr built"
    by (simp add: ex_build_rsna)
  have d': "\<forall>i. entries_of (evaluate ex_env i) ''acc'' = [Scalar (real i)]"
    by (simp add: ex_entries_acc)
  from ex_dispatch_rsna b' c d' e show ?thesis
    by (intro conjI)
qed

end
